theory Spec2Isabelle
  imports Complex_Main "HOL-Library.Word"
begin

section \<open>Python values and errors\<close>

text \<open>
  Every \<^verbatim>\<open>raise\<close> and failed \<^verbatim>\<open>assert\<close> of the source is a value of
  \<open>error\<close>; a function that can fail returns \<open>error + 'a\<close>, with \<open>Inl\<close> for the
  exception. The constructors name the Python exception and, where one class is raised in
  more than one place, the place.
\<close>

datatype error =
    AssertionError
  | IndexError
  | TypeError_bind
  | TypeError_incompatible_shapes
  | TypeError_reshape
  | ValueError_tree_structure
  | ValueError_repeat_operands
  | ValueError string
  | AttributeError
  | Outside_model_negative_repeats

definition bind_res :: "error + 'a \<Rightarrow> ('a \<Rightarrow> error + 'b) \<Rightarrow> error + 'b" where
  "bind_res r f = (case r of Inl e \<Rightarrow> Inl e | Inr x \<Rightarrow> f x)"

section \<open>utils.py: extract_field\<close>

text \<open>
  The values an optimizer state is built from. A plain tuple is \<open>PTuple\<close>; a namedtuple
  instance is \<open>PNamedTuple\<close>, the list of its \<^verbatim>\<open>_fields\<close> names paired with the slot
  values, in slot order. Lists, dicts, numbers and \<^verbatim>\<open>None\<close> are the values for which
  \<^verbatim>\<open>isinstance(x, tuple)\<close> is false.
\<close>

datatype pyval =
    PNone
  | PInt int
  | PList "pyval list"
  | PDict "(string \<times> pyval) list"
  | PTuple "pyval list"
  | PNamedTuple "(string \<times> pyval) list"

text \<open>\<^verbatim>\<open>isinstance(x, tuple)\<close>: true of tuples and of namedtuples.\<close>

fun isinstance_tuple :: "pyval \<Rightarrow> bool" where
  "isinstance_tuple (PTuple es) = True"
| "isinstance_tuple (PNamedTuple fs) = True"
| "isinstance_tuple v = False"

text \<open>The slots of a tuple, in order: what \<^verbatim>\<open>for element in state\<close> iterates over.\<close>

fun elements :: "pyval \<Rightarrow> pyval list" where
  "elements (PTuple es) = es"
| "elements (PNamedTuple fs) = map snd fs"
| "elements v = []"

text \<open>
  \<^verbatim>\<open>hasattr(state, '_fields') and field_name in state._fields\<close>, then
  \<^verbatim>\<open>getattr(state, field_name)\<close>: \<open>Some\<close> the slot of that name of a namedtuple.
\<close>

fun named_field :: "pyval \<Rightarrow> string \<Rightarrow> pyval option" where
  "named_field (PNamedTuple fs) field_name = map_of fs field_name"
| "named_field v field_name = None"

lemma size_list_map_snd:
  "size_list size (map snd fs) \<le> size_list (size_prod (\<lambda>_. 0) size) (fs :: (string \<times> pyval) list)"
  by (induction fs) auto

text \<open>
  \<open>extract_field\<close> is the function, \<open>extract_field_loop\<close> its \<^verbatim>\<open>for\<close> loop over the
  slots still to visit. The loop returns from inside at the first slot that is a tuple
  and whose search result is not \<^verbatim>\<open>None\<close>.
\<close>

function extract_field :: "pyval \<Rightarrow> string \<Rightarrow> error + pyval"
  and extract_field_loop :: "pyval list \<Rightarrow> string \<Rightarrow> error + pyval" where
  "extract_field state field_name =
     (if \<not> isinstance_tuple state then Inl AssertionError
      else (case named_field state field_name of
              Some v \<Rightarrow> Inr v
            | None \<Rightarrow> extract_field_loop (elements state) field_name))"
| "extract_field_loop [] field_name = Inr PNone"
| "extract_field_loop (element # rest) field_name =
     (if isinstance_tuple element then
        (case extract_field element field_name of
           Inl e \<Rightarrow> Inl e
         | Inr field \<Rightarrow>
             if field \<noteq> PNone then Inr field else extract_field_loop rest field_name)
      else extract_field_loop rest field_name)"
  by pat_completeness auto
termination
proof (relation "measure (\<lambda>x. case x of
          Inl (state, _) \<Rightarrow> 2 * size state
        | Inr (es, _) \<Rightarrow> 2 * size_list size es + 1)")
  show "wf (measure (\<lambda>x. case x of
          Inl (state, _) \<Rightarrow> 2 * size state
        | Inr (es, _) \<Rightarrow> 2 * size_list size es + 1))"
    by simp
next
  fix state :: pyval and field_name :: string
  assume "\<not> \<not> isinstance_tuple state"
  then show "(Inr (elements state, field_name), Inl (state, field_name))
      \<in> measure (\<lambda>x. case x of
          Inl (state, _) \<Rightarrow> 2 * size state
        | Inr (es, _) \<Rightarrow> 2 * size_list size es + 1)"
    using size_list_map_snd by (cases state) (auto simp: le_imp_less_Suc)
qed auto

declare extract_field.simps [simp del]

text \<open>
  The specification's words, as a second definition to compare the source with: if the
  top-level value has a named field of the given name, return it; otherwise recurse into
  every element that is itself tuple-like and return the first non-null match; return
  null if there is none.
\<close>

definition first_non_null :: "pyval list \<Rightarrow> pyval" where
  "first_non_null rs = (case find (\<lambda>r. r \<noteq> PNone) rs of Some r \<Rightarrow> r | None \<Rightarrow> PNone)"

lemma size_elements: "e \<in> set (elements state) \<Longrightarrow> size e < size state"
proof (cases state)
  case (PTuple es)
  assume "e \<in> set (elements state)"
  with PTuple show ?thesis by (auto simp: less_Suc_eq_le size_list_estimation')
next
  case (PNamedTuple fs)
  assume "e \<in> set (elements state)"
  with PNamedTuple obtain k where "(k, e) \<in> set fs" by auto
  then have "size_prod (\<lambda>_. 0) size (k, e) \<le> size_list (size_prod (\<lambda>_. 0) size) fs"
    by (simp add: size_list_estimation')
  with PNamedTuple show ?thesis by simp
qed auto

function extract_field_spec :: "pyval \<Rightarrow> string \<Rightarrow> pyval" where
  "extract_field_spec state field_name =
     (case named_field state field_name of
        Some v \<Rightarrow> v
      | None \<Rightarrow> first_non_null (map (\<lambda>e. extract_field_spec e field_name)
                  (filter isinstance_tuple (elements state))))"
  by pat_completeness auto
termination
  by (relation "measure (\<lambda>(state, _). size state)") (auto simp: size_elements)

declare extract_field_spec.simps [simp del]

text \<open>
  Everything stored directly inside a value, whatever the container: the slots of a
  tuple, the items of a list, the values of a dict.
\<close>

fun subvalues :: "pyval \<Rightarrow> pyval list" where
  "subvalues (PList es) = es"
| "subvalues (PDict kvs) = map snd kvs"
| "subvalues (PTuple es) = es"
| "subvalues (PNamedTuple fs) = map snd fs"
| "subvalues v = []"

lemma size_subvalues: "e \<in> set (subvalues v) \<Longrightarrow> size e < size v"
proof (cases v)
  case (PList es)
  assume "e \<in> set (subvalues v)"
  with PList show ?thesis by (auto simp: less_Suc_eq_le size_list_estimation')
next
  case (PDict kvs)
  assume "e \<in> set (subvalues v)"
  with PDict obtain k where "(k, e) \<in> set kvs" by auto
  then have "size_prod (\<lambda>_. 0) size (k, e) \<le> size_list (size_prod (\<lambda>_. 0) size) kvs"
    by (simp add: size_list_estimation')
  with PDict show ?thesis by simp
next
  case (PTuple es)
  assume "e \<in> set (subvalues v)"
  with PTuple show ?thesis by (auto simp: less_Suc_eq_le size_list_estimation')
next
  case (PNamedTuple fs)
  assume "e \<in> set (subvalues v)"
  with PNamedTuple obtain k where "(k, e) \<in> set fs" by auto
  then have "size_prod (\<lambda>_. 0) size (k, e) \<le> size_list (size_prod (\<lambda>_. 0) size) fs"
    by (simp add: size_list_estimation')
  with PNamedTuple show ?thesis by simp
qed auto

text \<open>A namedtuple with a field of that name occurs somewhere in the nesting.\<close>

function field_occurs :: "pyval \<Rightarrow> string \<Rightarrow> bool" where
  "field_occurs v field_name =
     (named_field v field_name \<noteq> None \<or> list_ex (\<lambda>e. field_occurs e field_name) (subvalues v))"
  by pat_completeness auto
termination
  by (relation "measure (\<lambda>(v, _). size v)") (auto simp: size_subvalues)

declare field_occurs.simps [simp del]

text \<open>The specification's example \<^verbatim>\<open>A(x=B(y=5), z=3)\<close>.\<close>

definition example_A :: pyval where
  "example_A = PNamedTuple [(''x'', PNamedTuple [(''y'', PInt 5)]), (''z'', PInt 3)]"

text \<open>A tuple whose only namedtuple with a field \<^verbatim>\<open>y\<close> sits inside a dict and a list.\<close>

definition example_hidden :: pyval where
  "example_hidden =
     PTuple [PDict [(''k'', PNamedTuple [(''y'', PInt 5)])], PList [PNamedTuple [(''y'', PInt 5)]]]"

subsection \<open>The search\<close>

lemma extract_field_loop_filter:
  "extract_field_loop es field_name = extract_field_loop (filter isinstance_tuple es) field_name"
  by (induction es) (auto split: sum.splits)

lemma extract_field_loop_first:
  "(\<And>e. e \<in> set es \<Longrightarrow> isinstance_tuple e \<Longrightarrow> extract_field e field_name = Inr (g e)) \<Longrightarrow>
   extract_field_loop es field_name = Inr (first_non_null (map g (filter isinstance_tuple es)))"
  by (induction es) (auto simp: first_non_null_def)

lemma extract_field_is_spec:
  "isinstance_tuple state \<Longrightarrow>
   extract_field state field_name = Inr (extract_field_spec state field_name)"
proof (induction state field_name rule: extract_field_spec.induct)
  case (1 state field_name)
  show ?case
  proof (cases "named_field state field_name")
    case (Some v)
    with "1.prems" show ?thesis
      by (simp add: extract_field.simps extract_field_spec.simps)
  next
    case None
    have "extract_field_loop (elements state) field_name =
        Inr (first_non_null (map (\<lambda>e. extract_field_spec e field_name)
               (filter isinstance_tuple (elements state))))"
      by (rule extract_field_loop_first) (simp add: "1.IH" None)
    with None "1.prems" show ?thesis
      by (simp add: extract_field.simps extract_field_spec.simps)
  qed
qed

lemma first_non_null_all_PNone:
  "(\<And>r. r \<in> set rs \<Longrightarrow> r = PNone) \<Longrightarrow> first_non_null rs = PNone"
  by (induction rs) (auto simp: first_non_null_def)

lemma elements_subvalues: "e \<in> set (elements v) \<Longrightarrow> e \<in> set (subvalues v)"
  by (cases v) auto

lemma extract_field_spec_no_field:
  "\<not> field_occurs state field_name \<Longrightarrow> extract_field_spec state field_name = PNone"
proof (induction state field_name rule: extract_field_spec.induct)
  case (1 state field_name)
  from "1.prems" have nf: "named_field state field_name = None"
    and sub: "\<And>e. e \<in> set (subvalues state) \<Longrightarrow> \<not> field_occurs e field_name"
    by (auto simp: field_occurs.simps [of state] list_ex_iff)
  have "first_non_null (map (\<lambda>e. extract_field_spec e field_name)
               (filter isinstance_tuple (elements state))) = PNone"
    by (rule first_non_null_all_PNone) (auto simp: "1.IH" nf sub elements_subvalues)
  with nf show ?case by (simp add: extract_field_spec.simps [of state])
qed

text \<open>
  C8. For every nested tuple \<open>state\<close> and field name, \<open>extract_field\<close> returns the
  top-level named field when there is one; otherwise the first result that is not
  \<^verbatim>\<open>None\<close> of searching, in slot order, the slots that are tuples (this is
  \<open>extract_field_spec\<close>); and \<^verbatim>\<open>None\<close> when no namedtuple anywhere in the nesting has
  a field of that name. On \<^verbatim>\<open>A(x=B(y=5), z=3)\<close> the field \<^verbatim>\<open>y\<close> is 5 and the field
  \<^verbatim>\<open>nonexistent\<close> is \<^verbatim>\<open>None\<close>.
\<close>

theorem extract_field_depth_first:
  "(isinstance_tuple state \<and> named_field state field_name = Some v \<longrightarrow>
      extract_field state field_name = Inr v)
   \<and> (isinstance_tuple state \<longrightarrow>
      extract_field state field_name = Inr (extract_field_spec state field_name))
   \<and> (isinstance_tuple state \<and> \<not> field_occurs state field_name \<longrightarrow>
      extract_field state field_name = Inr PNone)
   \<and> extract_field example_A ''y'' = Inr (PInt 5)
   \<and> extract_field example_A ''nonexistent'' = Inr PNone"
proof (intro conjI impI)
  assume "isinstance_tuple state \<and> named_field state field_name = Some v"
  then show "extract_field state field_name = Inr v"
    by (simp add: extract_field.simps)
next
  assume "isinstance_tuple state"
  then show "extract_field state field_name = Inr (extract_field_spec state field_name)"
    by (rule extract_field_is_spec)
next
  assume "isinstance_tuple state \<and> \<not> field_occurs state field_name"
  then show "extract_field state field_name = Inr PNone"
    by (simp add: extract_field_is_spec extract_field_spec_no_field)
next
  show "extract_field example_A ''y'' = Inr (PInt 5)"
    by code_simp
next
  show "extract_field example_A ''nonexistent'' = Inr PNone"
    by code_simp
qed

theorem extract_field_depth_first_witness:
  "isinstance_tuple example_A
   \<and> named_field example_A ''z'' = Some (PInt 3)
   \<and> extract_field example_A ''z'' = Inr (PInt 3)
   \<and> extract_field example_A ''y'' = Inr (extract_field_spec example_A ''y'')
   \<and> extract_field_spec example_A ''y'' = PInt 5
   \<and> \<not> field_occurs example_A ''nonexistent''
   \<and> extract_field example_A ''nonexistent'' = Inr PNone"
proof -
  have t: "isinstance_tuple example_A"
    by (simp add: example_A_def)
  have z: "named_field example_A ''z'' = Some (PInt 3)"
    by (simp add: example_A_def)
  have s: "extract_field_spec example_A ''y'' = PInt 5"
    by code_simp
  have n: "\<not> field_occurs example_A ''nonexistent''"
    by code_simp
  from extract_field_depth_first [of example_A "''z''" "PInt 3"] t z
  have 1: "extract_field example_A ''z'' = Inr (PInt 3)" by blast
  from extract_field_depth_first [of example_A "''y''" "PInt 3"] t
  have 2: "extract_field example_A ''y'' = Inr (extract_field_spec example_A ''y'')" by blast
  from extract_field_depth_first [of example_A "''nonexistent''" "PInt 3"] t n
  have 3: "extract_field example_A ''nonexistent'' = Inr PNone" by blast
  from t z s n 1 2 3 show ?thesis by blast
qed

text \<open>
  C10. \<open>extract_field\<close> asserts that \<open>state\<close> is a tuple: on a dict, a list, a number or
  \<^verbatim>\<open>None\<close> it fails the assertion, it does not return \<^verbatim>\<open>None\<close>. Below a tuple
  without the field, only the slots that are tuples are searched: the result is that of
  searching the tuple of those slots alone, and it is \<^verbatim>\<open>None\<close> when no slot is a
  tuple, whatever the other slots hold.
\<close>

theorem extract_field_tuples_only:
  "(\<not> isinstance_tuple state \<longrightarrow> extract_field state field_name = Inl AssertionError)
   \<and> (isinstance_tuple state \<and> named_field state field_name = None \<longrightarrow>
        extract_field state field_name =
        extract_field (PTuple (filter isinstance_tuple (elements state))) field_name)
   \<and> (isinstance_tuple state \<and> named_field state field_name = None
        \<and> list_all (\<lambda>e. \<not> isinstance_tuple e) (elements state) \<longrightarrow>
        extract_field state field_name = Inr PNone)"
proof (intro conjI impI)
  assume "\<not> isinstance_tuple state"
  then show "extract_field state field_name = Inl AssertionError"
    by (simp add: extract_field.simps)
next
  assume "isinstance_tuple state \<and> named_field state field_name = None"
  then show "extract_field state field_name =
      extract_field (PTuple (filter isinstance_tuple (elements state))) field_name"
    using extract_field_loop_filter [of "elements state" field_name]
    by (simp add: extract_field.simps)
next
  assume a: "isinstance_tuple state \<and> named_field state field_name = None
        \<and> list_all (\<lambda>e. \<not> isinstance_tuple e) (elements state)"
  then have "filter isinstance_tuple (elements state) = []"
    by (simp add: list_all_iff filter_empty_conv)
  with a show "extract_field state field_name = Inr PNone"
    using extract_field_loop_filter [of "elements state" field_name]
    by (simp add: extract_field.simps)
qed

theorem extract_field_tuples_only_witness:
  "\<not> isinstance_tuple (PDict [(''y'', PInt 5)])
   \<and> extract_field (PDict [(''y'', PInt 5)]) ''y'' = Inl AssertionError
   \<and> \<not> isinstance_tuple PNone
   \<and> extract_field PNone ''y'' = Inl AssertionError
   \<and> isinstance_tuple example_hidden
   \<and> named_field example_hidden ''y'' = None
   \<and> list_all (\<lambda>e. \<not> isinstance_tuple e) (elements example_hidden)
   \<and> field_occurs example_hidden ''y''
   \<and> extract_field example_hidden ''y'' = Inr PNone"
proof -
  have d: "\<not> isinstance_tuple (PDict [(''y'', PInt 5)])" and n: "\<not> isinstance_tuple PNone"
    by simp_all
  have t: "isinstance_tuple example_hidden"
    and f: "named_field example_hidden ''y'' = None"
    and a: "list_all (\<lambda>e. \<not> isinstance_tuple e) (elements example_hidden)"
    by (simp_all add: example_hidden_def)
  have o: "field_occurs example_hidden ''y''"
    by code_simp
  from extract_field_tuples_only [of "PDict [(''y'', PInt 5)]" "''y''"] d
  have 1: "extract_field (PDict [(''y'', PInt 5)]) ''y'' = Inl AssertionError" by blast
  from extract_field_tuples_only [of PNone "''y''"] n
  have 2: "extract_field PNone ''y'' = Inl AssertionError" by blast
  from extract_field_tuples_only [of example_hidden "''y''"] t f a
  have 3: "extract_field example_hidden ''y'' = Inr PNone" by blast
  from d n t f a o 1 2 3 show ?thesis by blast
qed

section \<open>utils.py: static_inject_hyperparams\<close>

text \<open>
  \<^verbatim>\<open>inspect.signature(inner_factory)\<close> is modelled as the list of the factory's
  parameters in order, each with its default if it has one. The model covers the
  parameters an optimizer factory is written with, positional-or-keyword ones;
  \<^verbatim>\<open>*args\<close>, \<^verbatim>\<open>**kwargs\<close>, positional-only and keyword-only parameters are not
  modelled. A call is the list of its positional arguments and the association list of
  its keyword arguments.
\<close>

type_synonym 'v signature = "(string \<times> 'v option) list"

text \<open>
  \<^verbatim>\<open>Signature.bind(*args, **kwargs)\<close> of the standard library: positional
  arguments go to the leading parameters; a parameter that is given both ways, a
  required parameter that is not given, one positional argument too many and a keyword
  that names no remaining parameter are a \<^verbatim>\<open>TypeError\<close>. The result has the bound
  parameters only, without the defaults.
\<close>

fun bind_args ::
  "'v signature \<Rightarrow> 'v list \<Rightarrow> (string \<times> 'v) list \<Rightarrow> error + (string \<times> 'v) list" where
  "bind_args [] [] kwargs = (if kwargs = [] then Inr [] else Inl TypeError_bind)"
| "bind_args [] (a # as) kwargs = Inl TypeError_bind"
| "bind_args ((n, d) # ps) (a # as) kwargs =
     (if n \<in> fst ` set kwargs then Inl TypeError_bind
      else bind_res (bind_args ps as kwargs) (\<lambda>b. Inr ((n, a) # b)))"
| "bind_args ((n, d) # ps) [] kwargs =
     (case map_of kwargs n of
        Some v \<Rightarrow>
          bind_res (bind_args ps [] (filter (\<lambda>kv. fst kv \<noteq> n) kwargs)) (\<lambda>b. Inr ((n, v) # b))
      | None \<Rightarrow> (case d of
                  None \<Rightarrow> Inl TypeError_bind
                | Some dv \<Rightarrow> bind_args ps [] kwargs))"

text \<open>
  \<^verbatim>\<open>BoundArguments.apply_defaults()\<close>: every parameter that was not bound and has
  a default is added with it, in the signature's order.
\<close>

fun apply_defaults :: "'v signature \<Rightarrow> (string \<times> 'v) list \<Rightarrow> (string \<times> 'v) list" where
  "apply_defaults [] arguments = []"
| "apply_defaults ((n, d) # ps) arguments =
     (case map_of arguments n of
        Some v \<Rightarrow> (n, v) # apply_defaults ps arguments
      | None \<Rightarrow> (case d of
                  Some dv \<Rightarrow> (n, dv) # apply_defaults ps arguments
                | None \<Rightarrow> apply_defaults ps arguments))"

text \<open>
  \<^verbatim>\<open>injectable_args\<close> is a string or an iterable of strings; the first line of
  \<^verbatim>\<open>static_inject_hyperparams\<close> makes a set of either.
\<close>

datatype injectable = Str string | Iterable "string list"

fun injectable_set :: "injectable \<Rightarrow> string set" where
  "injectable_set (Str s) = {s}"
| "injectable_set (Iterable ns) = set ns"

text \<open>
  \<^verbatim>\<open>static_args = set(bound_arguments.arguments.keys()) - injectable_args\<close>, after
  \<^verbatim>\<open>apply_defaults\<close>.
\<close>

definition static_args :: "'v signature \<Rightarrow> injectable \<Rightarrow> (string \<times> 'v) list \<Rightarrow> string set" where
  "static_args inner_signature injectable_args bound_arguments =
     set (map fst (apply_defaults inner_signature bound_arguments))
       - injectable_set injectable_args"

text \<open>
  The constructor \<^verbatim>\<open>wrapped_transform\<close> that \<^verbatim>\<open>static_inject_hyperparams\<close> returns.
  \<^verbatim>\<open>optax.inject_hyperparams(inner_factory, static_args)\<close> belongs to optax; it is the
  parameter \<open>inject_hyperparams\<close>, given the static set and then the call's own arguments.
\<close>

definition wrapped_transform ::
  "(string set \<Rightarrow> 'v list \<Rightarrow> (string \<times> 'v) list \<Rightarrow> 'r) \<Rightarrow> 'v signature \<Rightarrow> injectable \<Rightarrow>
   'v list \<Rightarrow> (string \<times> 'v) list \<Rightarrow> error + 'r" where
  "wrapped_transform inject_hyperparams inner_signature injectable_args args kwargs =
     bind_res (bind_args inner_signature args kwargs) (\<lambda>bound_arguments.
       Inr (inject_hyperparams
              (static_args inner_signature injectable_args bound_arguments) args kwargs))"

text \<open>The factory of the specification's example: \<^verbatim>\<open>(learning_rate, momentum=...)\<close>.\<close>

definition example_signature :: "string signature" where
  "example_signature = [(''learning_rate'', None), (''momentum'', Some ''0.9'')]"

subsection \<open>The static arguments\<close>

lemma bind_args_covers:
  "bind_args sig args kwargs = Inr b \<Longrightarrow> (n, d) \<in> set sig \<Longrightarrow> n \<in> fst ` set b \<or> d \<noteq> None"
proof (induction sig args kwargs arbitrary: b rule: bind_args.induct)
  case (3 n' d' ps a as kwargs)
  then show ?case
    by (auto simp: bind_res_def split: if_splits sum.splits)
next
  case (4 n' d' ps kwargs)
  then show ?case
    by (auto simp: bind_res_def split: if_splits sum.splits option.splits)
qed auto

lemma apply_defaults_keys:
  "n \<in> fst ` set (apply_defaults sig arguments) \<longleftrightarrow>
   (\<exists>d. (n, d) \<in> set sig \<and> (map_of arguments n \<noteq> None \<or> d \<noteq> None))"
proof (induction sig)
  case Nil
  show ?case by simp
next
  case (Cons p ps)
  obtain m d where p: "p = (m, d)" by (cases p)
  show ?case
  proof (cases "map_of arguments m")
    case (Some v)
    with Cons p show ?thesis by auto
  next
    case None
    with Cons p show ?thesis by (cases d) auto
  qed
qed

lemma bind_args_all_keys:
  assumes "bind_args sig args kwargs = Inr b"
  shows "fst ` set (apply_defaults sig b) = fst ` set sig"
proof (rule set_eqI)
  fix n
  show "n \<in> fst ` set (apply_defaults sig b) \<longleftrightarrow> n \<in> fst ` set sig"
  proof
    assume "n \<in> fst ` set (apply_defaults sig b)"
    then obtain d where "(n, d) \<in> set sig"
      unfolding apply_defaults_keys by blast
    then show "n \<in> fst ` set sig" by force
  next
    assume "n \<in> fst ` set sig"
    then obtain d where d: "(n, d) \<in> set sig" by auto
    from bind_args_covers [OF assms d] have "map_of b n \<noteq> None \<or> d \<noteq> None"
      by (simp add: map_of_eq_None_iff)
    with d show "n \<in> fst ` set (apply_defaults sig b)"
      unfolding apply_defaults_keys by blast
  qed
qed



section \<open>Arrays and trees of arrays\<close>

text \<open>
  A JAX array is its shape and its elements in row-major order. The elements of the
  optimizer's arrays are modelled as real numbers: the arithmetic is exact, the rounding
  and the overflow of the binary formats are not modelled, and a division by zero, which
  gives \<^verbatim>\<open>inf\<close> or \<^verbatim>\<open>nan\<close> in JAX, is outside the model. The values \<^verbatim>\<open>nan\<close> and
  \<^verbatim>\<open>inf\<close> themselves are modelled where the source handles them, in the section on
  clipping.
\<close>

datatype 'a ndarray = NDArray (shape: "nat list") (data: "'a list")

definition valid_array :: "'a ndarray \<Rightarrow> bool" where
  "valid_array a = (length (data a) = prod_list (shape a))"

text \<open>
  Broadcasting, as numpy and JAX do it for every elementwise operation: the shapes are
  aligned at their last axes, and two sizes are compatible when they are equal or one
  of them is 1. \<open>broadcast_rev\<close> works on the reversed shapes.
\<close>

fun broadcast_rev :: "nat list \<Rightarrow> nat list \<Rightarrow> nat list option" where
  "broadcast_rev [] ys = Some ys"
| "broadcast_rev (x # xs) [] = Some (x # xs)"
| "broadcast_rev (x # xs) (y # ys) =
     (if x = y \<or> y = 1 then map_option ((#) x) (broadcast_rev xs ys)
      else if x = 1 then map_option ((#) y) (broadcast_rev xs ys)
      else None)"

definition broadcast_shapes :: "nat list \<Rightarrow> nat list \<Rightarrow> nat list option" where
  "broadcast_shapes s t = map_option rev (broadcast_rev (rev s) (rev t))"

fun unravel_index :: "nat list \<Rightarrow> nat \<Rightarrow> nat list" where
  "unravel_index [] i = []"
| "unravel_index (d # ds) i = (i div prod_list ds) # unravel_index ds (i mod prod_list ds)"

fun ravel_index :: "nat list \<Rightarrow> nat list \<Rightarrow> nat" where
  "ravel_index (d # ds) (j # js) = j * prod_list ds + ravel_index ds js"
| "ravel_index ds js = 0"

text \<open>
  The position in an array of shape \<open>s\<close> that supplies position \<open>i\<close> of its broadcast to
  the shape \<open>target\<close>: the leading axes \<open>s\<close> does not have are dropped, and an axis of
  size 1 is read at 0.
\<close>

definition source_index :: "nat list \<Rightarrow> nat list \<Rightarrow> nat \<Rightarrow> nat" where
  "source_index s target i =
     ravel_index s
       (map2 (\<lambda>d j. if d = 1 then 0 else j) s
          (drop (length target - length s) (unravel_index target i)))"

definition broadcast_to :: "nat list \<Rightarrow> 'a ndarray \<Rightarrow> 'a list" where
  "broadcast_to target a =
     map (\<lambda>i. data a ! source_index (shape a) target i) [0..<prod_list target]"

text \<open>
  A Python \<^verbatim>\<open>lambda\<close> over array leaves, built from elementwise operations, applied
  to one, two or three arrays: the operands are broadcast to their common shape, and
  shapes that do not broadcast are JAX's \<^verbatim>\<open>TypeError\<close>.
\<close>

definition elementwise1 :: "('a \<Rightarrow> 'b) \<Rightarrow> 'a ndarray \<Rightarrow> 'b ndarray" where
  "elementwise1 f a = NDArray (shape a) (map f (data a))"

definition elementwise2 ::
  "('a \<Rightarrow> 'b \<Rightarrow> 'c) \<Rightarrow> 'a ndarray \<Rightarrow> 'b ndarray \<Rightarrow> error + 'c ndarray" where
  "elementwise2 f a b =
     (case broadcast_shapes (shape a) (shape b) of
        None \<Rightarrow> Inl TypeError_incompatible_shapes
      | Some s \<Rightarrow> Inr (NDArray s (map2 f (broadcast_to s a) (broadcast_to s b))))"

definition elementwise3 ::
  "('a \<Rightarrow> 'b \<Rightarrow> 'c \<Rightarrow> 'd) \<Rightarrow> 'a ndarray \<Rightarrow> 'b ndarray \<Rightarrow> 'c ndarray \<Rightarrow> error + 'd ndarray" where
  "elementwise3 f a b c =
     (case Option.bind (broadcast_shapes (shape a) (shape b))
             (\<lambda>s. broadcast_shapes s (shape c)) of
        None \<Rightarrow> Inl TypeError_incompatible_shapes
      | Some s \<Rightarrow>
          Inr (NDArray s (map (\<lambda>(x, y, z). f x y z)
                 (zip (broadcast_to s a) (zip (broadcast_to s b) (broadcast_to s c))))))"

text \<open>
  A pytree: a leaf, or a container node with its children in order. The string of a node
  stands for what JAX compares besides the number of children: the container's type and,
  for a dict, its keys.
\<close>

datatype 'a pytree = Leaf 'a | Node string "'a pytree list"

text \<open>
  \<^verbatim>\<open>jax.tree_map(f, tree, *rest)\<close> first matches the structure of every further tree
  with the first one, a \<^verbatim>\<open>ValueError\<close> when they differ, and only then calls \<open>f\<close> on
  the leaves, from left to right. \<open>tree_zip\<close> is the matching, \<open>tree_traverse\<close> the calls.
  JAX also accepts a further tree that extends the first one below its leaves; the model
  treats that as a mismatch.
\<close>

fun tree_zip :: "'a pytree \<Rightarrow> 'b pytree \<Rightarrow> error + ('a \<times> 'b) pytree"
  and forest_zip :: "'a pytree list \<Rightarrow> 'b pytree list \<Rightarrow> error + ('a \<times> 'b) pytree list" where
  "tree_zip (Leaf a) (Leaf b) = Inr (Leaf (a, b))"
| "tree_zip (Node k ts) (Node k' us) =
     (if k = k' then bind_res (forest_zip ts us) (\<lambda>zs. Inr (Node k zs))
      else Inl ValueError_tree_structure)"
| "tree_zip (Leaf a) (Node k' us) = Inl ValueError_tree_structure"
| "tree_zip (Node k ts) (Leaf b) = Inl ValueError_tree_structure"
| "forest_zip [] [] = Inr []"
| "forest_zip (t # ts) (u # us) =
     bind_res (tree_zip t u) (\<lambda>z. bind_res (forest_zip ts us) (\<lambda>zs. Inr (z # zs)))"
| "forest_zip [] (u # us) = Inl ValueError_tree_structure"
| "forest_zip (t # ts) [] = Inl ValueError_tree_structure"

fun tree_traverse :: "('a \<Rightarrow> error + 'b) \<Rightarrow> 'a pytree \<Rightarrow> error + 'b pytree"
  and forest_traverse :: "('a \<Rightarrow> error + 'b) \<Rightarrow> 'a pytree list \<Rightarrow> error + 'b pytree list" where
  "tree_traverse f (Leaf a) = bind_res (f a) (\<lambda>b. Inr (Leaf b))"
| "tree_traverse f (Node k ts) = bind_res (forest_traverse f ts) (\<lambda>us. Inr (Node k us))"
| "forest_traverse f [] = Inr []"
| "forest_traverse f (t # ts) =
     bind_res (tree_traverse f t) (\<lambda>u. bind_res (forest_traverse f ts) (\<lambda>us. Inr (u # us)))"

definition tree_map2 ::
  "('a \<Rightarrow> 'b \<Rightarrow> error + 'c) \<Rightarrow> 'a pytree \<Rightarrow> 'b pytree \<Rightarrow> error + 'c pytree" where
  "tree_map2 f t u = bind_res (tree_zip t u) (tree_traverse (\<lambda>(a, b). f a b))"

definition tree_map3 ::
  "('a \<Rightarrow> 'b \<Rightarrow> 'c \<Rightarrow> error + 'd) \<Rightarrow> 'a pytree \<Rightarrow> 'b pytree \<Rightarrow> 'c pytree
   \<Rightarrow> error + 'd pytree" where
  "tree_map3 f t u v =
     bind_res (tree_zip t u) (\<lambda>tu.
     bind_res (tree_zip tu v) (tree_traverse (\<lambda>((a, b), c). f a b c)))"

section \<open>transform.py: numeric helpers\<close>

type_synonym int32 = "32 word"
type_synonym array = "real ndarray"
type_synonym updates = "array pytree"

definition max_int32_value :: int32 where
  "max_int32_value = 0x7FFFFFFF"

text \<open>
  \<^verbatim>\<open>jnp.where(count < max_int32_value, count + one, max_int32_value)\<close>, a signed
  comparison. \<^verbatim>\<open>chex.assert_type(count, jnp.int32)\<close> is the type of \<open>count\<close>.
\<close>

definition safe_int32_increment :: "int32 \<Rightarrow> int32" where
  "safe_int32_increment count =
     (if count <s max_int32_value then count + 1 else max_int32_value)"

definition update_moment :: "updates \<Rightarrow> updates \<Rightarrow> real \<Rightarrow> nat \<Rightarrow> error + updates" where
  "update_moment updates moments decay order =
     tree_map2 (elementwise2 (\<lambda>g t. (1 - decay) * g ^ order + decay * t)) updates moments"

text \<open>\<^verbatim>\<open>decay**count\<close> with the int32 counter read as the signed number it is.\<close>

definition bias_correction :: "updates \<Rightarrow> real \<Rightarrow> int32 \<Rightarrow> updates" where
  "bias_correction moment decay count =
     (let beta = 1 - power_int decay (sint count)
      in map_pytree (elementwise1 (\<lambda>t. t / beta)) moment)"

definition zeros_like :: "array \<Rightarrow> array" where
  "zeros_like p = NDArray (shape p) (replicate (prod_list (shape p)) 0)"

definition full_like :: "array \<Rightarrow> real \<Rightarrow> array" where
  "full_like p fill_value = NDArray (shape p) (replicate (prod_list (shape p)) fill_value)"

text \<open>
  \<^verbatim>\<open>raise_power = jnp.sqrt if power == 0.5 else lambda x: jnp.power(x, power)\<close>.
  On a negative argument JAX gives \<^verbatim>\<open>nan\<close>; the second moments it is applied to are
  not negative.
\<close>

definition raise_power :: "real \<Rightarrow> real \<Rightarrow> real" where
  "raise_power power' x = (if power' = 1 / 2 then sqrt x else x powr power')"

section \<open>transform.py: the transforms with a step counter\<close>

text \<open>
  Each transform is its \<^verbatim>\<open>init_fn\<close> and its \<^verbatim>\<open>update_fn\<close>, with the
  hyperparameters of the enclosing factory as leading arguments. \<^verbatim>\<open>update_fn\<close>
  deletes \<^verbatim>\<open>params\<close> on entry in all of them, so the model leaves it out.
\<close>

record PreconditionBySecondMomentCoordinateWiseState =
  count :: int32
  nu :: updates

record BiasCorrectionState =
  count :: int32

record ScaleByAdamState =
  count :: int32
  mu :: updates
  nu :: updates

record PreconditionByLayeredAdaptiveRMSState =
  count :: int32
  nu :: updates
  beta_array :: updates
  scale_array :: updates

subsection \<open>precondition_by_rms\<close>

definition precondition_by_rms_init_fn ::
  "updates \<Rightarrow> PreconditionBySecondMomentCoordinateWiseState" where
  "precondition_by_rms_init_fn params =
     \<lparr>PreconditionBySecondMomentCoordinateWiseState.count = 0,
      nu = map_pytree zeros_like params\<rparr>"

definition precondition_by_rms_update_fn ::
  "real \<Rightarrow> real \<Rightarrow> real \<Rightarrow> bool \<Rightarrow> real \<Rightarrow> updates
   \<Rightarrow> PreconditionBySecondMomentCoordinateWiseState
   \<Rightarrow> error + updates \<times> PreconditionBySecondMomentCoordinateWiseState" where
  "precondition_by_rms_update_fn decay eps eps_root debias power' updates state =
     bind_res (update_moment updates
                 (PreconditionBySecondMomentCoordinateWiseState.nu state) decay 2) (\<lambda>nu.
     let count = PreconditionBySecondMomentCoordinateWiseState.count state + 1;
         nu_hat = (if \<not> debias then nu else bias_correction nu decay count)
     in bind_res (tree_map2
                    (elementwise2 (\<lambda>u v. u / (raise_power power' (v + eps_root) + eps)))
                    updates nu_hat) (\<lambda>updates.
        Inr (updates,
             \<lparr>PreconditionBySecondMomentCoordinateWiseState.count = count, nu = nu\<rparr>)))"

subsection \<open>precondition_by_yogi\<close>

definition precondition_by_yogi_init_fn ::
  "real \<Rightarrow> updates \<Rightarrow> PreconditionBySecondMomentCoordinateWiseState" where
  "precondition_by_yogi_init_fn initial_accumulator_value params =
     \<lparr>PreconditionBySecondMomentCoordinateWiseState.count = 0,
      nu = map_pytree (\<lambda>p. full_like p initial_accumulator_value) params\<rparr>"

definition precondition_by_yogi_update_fn ::
  "real \<Rightarrow> real \<Rightarrow> real \<Rightarrow> bool \<Rightarrow> updates
   \<Rightarrow> PreconditionBySecondMomentCoordinateWiseState
   \<Rightarrow> error + updates \<times> PreconditionBySecondMomentCoordinateWiseState" where
  "precondition_by_yogi_update_fn b2 eps eps_root debias updates state =
     bind_res (tree_map2
                 (elementwise2 (\<lambda>g v. v - (1 - b2) * sgn (v - g ^ 2) * g ^ 2))
                 updates (PreconditionBySecondMomentCoordinateWiseState.nu state)) (\<lambda>nu.
     let count = PreconditionBySecondMomentCoordinateWiseState.count state + 1;
         nu_hat = (if \<not> debias then nu else bias_correction nu b2 count)
     in bind_res (tree_map2 (elementwise2 (\<lambda>u v. u / (sqrt (v + eps_root) + eps)))
                    updates nu_hat) (\<lambda>updates.
        Inr (updates,
             \<lparr>PreconditionBySecondMomentCoordinateWiseState.count = count, nu = nu\<rparr>)))"

subsection \<open>precondition_by_amsgrad\<close>

definition precondition_by_amsgrad_init_fn ::
  "updates \<Rightarrow> PreconditionBySecondMomentCoordinateWiseState" where
  "precondition_by_amsgrad_init_fn params =
     \<lparr>PreconditionBySecondMomentCoordinateWiseState.count = 0,
      nu = map_pytree zeros_like params\<rparr>"

definition precondition_by_amsgrad_update_fn ::
  "real \<Rightarrow> real \<Rightarrow> real \<Rightarrow> updates \<Rightarrow> PreconditionBySecondMomentCoordinateWiseState
   \<Rightarrow> error + updates \<times> PreconditionBySecondMomentCoordinateWiseState" where
  "precondition_by_amsgrad_update_fn b2 eps eps_root updates state =
     bind_res (update_moment updates
                 (PreconditionBySecondMomentCoordinateWiseState.nu state) b2 2) (\<lambda>nu.
     let count = PreconditionBySecondMomentCoordinateWiseState.count state + 1
     in bind_res (tree_map2 (elementwise2 max) nu
                    (PreconditionBySecondMomentCoordinateWiseState.nu state)) (\<lambda>nu_hat.
        bind_res (tree_map2 (elementwise2 (\<lambda>m v. m / (sqrt (v + eps_root) + eps)))
                    updates nu_hat) (\<lambda>updates.
        Inr (updates,
             \<lparr>PreconditionBySecondMomentCoordinateWiseState.count = count, nu = nu\<rparr>))))"

subsection \<open>bias_correction\<close>

definition bias_correction_init_fn :: "updates \<Rightarrow> BiasCorrectionState" where
  "bias_correction_init_fn params = \<lparr>BiasCorrectionState.count = 0\<rparr>"

definition bias_correction_update_fn ::
  "real \<Rightarrow> updates \<Rightarrow> BiasCorrectionState \<Rightarrow> updates \<times> BiasCorrectionState" where
  "bias_correction_update_fn decay updates state =
     (let count_inc = safe_int32_increment (BiasCorrectionState.count state);
          new_vals = bias_correction updates decay count_inc
      in (new_vals, \<lparr>BiasCorrectionState.count = count_inc\<rparr>))"

subsection \<open>scale_by_adam\<close>

definition scale_by_adam_init_fn :: "updates \<Rightarrow> ScaleByAdamState" where
  "scale_by_adam_init_fn params =
     (let mu = map_pytree zeros_like params;
          nu = map_pytree zeros_like params
      in \<lparr>ScaleByAdamState.count = 0, mu = mu, nu = nu\<rparr>)"

definition scale_by_adam_update_fn ::
  "real \<Rightarrow> real \<Rightarrow> real \<Rightarrow> real \<Rightarrow> bool \<Rightarrow> real \<Rightarrow> updates \<Rightarrow> ScaleByAdamState
   \<Rightarrow> error + updates \<times> ScaleByAdamState" where
  "scale_by_adam_update_fn b1 b2 eps eps_root debias power' updates state =
     bind_res (update_moment updates (ScaleByAdamState.mu state) b1 1) (\<lambda>mu.
     bind_res (update_moment updates (ScaleByAdamState.nu state) b2 2) (\<lambda>nu.
     let count = ScaleByAdamState.count state + 1;
         mu_hat = (if \<not> debias then mu else bias_correction mu b1 count);
         nu_hat = (if \<not> debias then nu else bias_correction nu b2 count)
     in bind_res (tree_map2
                    (elementwise2 (\<lambda>m v. m / (raise_power power' (v + eps_root) + eps)))
                    mu_hat nu_hat) (\<lambda>updates.
        Inr (updates, \<lparr>ScaleByAdamState.count = count, mu = mu, nu = nu\<rparr>))))"

subsection \<open>scale_by_nadam\<close>

definition scale_by_nadam_init_fn :: "updates \<Rightarrow> ScaleByAdamState" where
  "scale_by_nadam_init_fn params =
     (let mu = map_pytree zeros_like params;
          nu = map_pytree zeros_like params
      in \<lparr>ScaleByAdamState.count = 0, mu = mu, nu = nu\<rparr>)"

definition scale_by_nadam_update_fn ::
  "real \<Rightarrow> real \<Rightarrow> real \<Rightarrow> real \<Rightarrow> bool \<Rightarrow> real \<Rightarrow> updates \<Rightarrow> ScaleByAdamState
   \<Rightarrow> error + updates \<times> ScaleByAdamState" where
  "scale_by_nadam_update_fn b1 b2 eps eps_root debias power' updates state =
     bind_res (update_moment updates (ScaleByAdamState.mu state) b1 1) (\<lambda>mu.
     bind_res (update_moment updates (ScaleByAdamState.nu state) b2 2) (\<lambda>nu.
     let count = ScaleByAdamState.count state + 1
     in bind_res (update_moment updates mu b1 1) (\<lambda>mu_hat.
        let mu_hat = (if \<not> debias then mu_hat else bias_correction mu_hat b1 count);
            nu_hat = (if \<not> debias then nu else bias_correction nu b2 count)
        in bind_res (tree_map2
                       (elementwise2 (\<lambda>m v. m / (raise_power power' (v + eps_root) + eps)))
                       mu_hat nu_hat) (\<lambda>updates.
           Inr (updates, \<lparr>ScaleByAdamState.count = count, mu = mu, nu = nu\<rparr>)))))"

subsection \<open>precondition_by_layered_adaptive_rms\<close>

text \<open>
  Indexing a Python tuple or list: a negative index counts from the end, and an index
  out of range is an \<^verbatim>\<open>IndexError\<close>.
\<close>

definition py_getitem :: "'a list \<Rightarrow> int \<Rightarrow> error + 'a" where
  "py_getitem xs i =
     (let n = int (length xs); j = (if i < 0 then n + i else i)
      in if 0 \<le> j \<and> j < n then Inr (xs ! nat j) else Inl IndexError)"

definition py_setitem :: "'a list \<Rightarrow> int \<Rightarrow> 'a \<Rightarrow> error + 'a list" where
  "py_setitem xs i v =
     (let n = int (length xs); j = (if i < 0 then n + i else i)
      in if 0 \<le> j \<and> j < n then Inr (xs[nat j := v]) else Inl IndexError)"

text \<open>
  \<^verbatim>\<open>jnp.repeat(a, repeats)\<close> on one-dimensional operands, after numpy: \<open>repeats\<close> is
  broadcast to the length of \<open>a\<close> (a \<^verbatim>\<open>ValueError\<close> when it has neither that length nor
  length 1), and element \<open>i\<close> of \<open>a\<close> is repeated \<open>repeats[i]\<close> times. numpy rejects a
  negative count; what JAX returns for one is an artefact of its implementation that the
  model does not follow: such a call is the value \<open>Outside_model_negative_repeats\<close>.
\<close>

definition jnp_repeat :: "'a list \<Rightarrow> int list \<Rightarrow> error + 'a list" where
  "jnp_repeat a repeats =
     (if length repeats \<noteq> length a \<and> length repeats \<noteq> 1 then Inl ValueError_repeat_operands
      else let repeats = (if length repeats = length a then repeats
                          else replicate (length a) (hd repeats))
           in if list_ex (\<lambda>r. r < 0) repeats then Inl Outside_model_negative_repeats
              else Inr (concat (map2 (\<lambda>x r. replicate (nat r) x) a repeats)))"

definition jnp_reshape :: "'a list \<Rightarrow> nat list \<Rightarrow> error + 'a ndarray" where
  "jnp_reshape xs new_shape =
     (if length xs = prod_list new_shape then Inr (NDArray new_shape xs)
      else Inl TypeError_reshape)"

text \<open>
  \<^verbatim>\<open>_generate_partition\<close>. The int32 array \<^verbatim>\<open>multiples\<close> is a list of integers: its
  entries are bounded by the length of an array axis, which is below \<open>2^31\<close>.
  \<^verbatim>\<open>multiples.at[-1]\<close> on an empty array is JAX's \<^verbatim>\<open>IndexError\<close>.
\<close>

definition generate_partition :: "real list \<Rightarrow> real list \<Rightarrow> nat \<Rightarrow> error + real list" where
  "generate_partition decays decay_distribution length' =
     (let multiples = map (\<lambda>d. \<lfloor>d * real length'\<rfloor>) decay_distribution
      in if multiples = [] then Inl IndexError
         else
           let multiples = multiples[length multiples - 1 :=
                 last multiples + int length' - sum_list multiples]
           in jnp_repeat decays multiples)"

definition generate_per_parameter_array ::
  "real list \<Rightarrow> string \<Rightarrow> real list \<Rightarrow> array \<Rightarrow> error + array" where
  "generate_per_parameter_array decay_distribution modality arr params =
     (let input_index = max (int (length (shape params)) - 2) 0;
          output_index = int (length (shape params)) - 1
      in bind_res (if modality = ''output'' then py_getitem (shape params) output_index
                   else py_getitem (shape params) input_index) (\<lambda>array_len.
         bind_res (generate_partition arr decay_distribution array_len) (\<lambda>full_array.
         let target_index = (if modality = ''output'' then output_index else input_index);
             new_shape = replicate (length (shape params)) 1
         in bind_res (py_setitem new_shape target_index array_len) (\<lambda>new_shape.
            jnp_reshape full_array new_shape))))"

definition precondition_by_layered_adaptive_rms_init_fn ::
  "real list \<Rightarrow> real list \<Rightarrow> real list \<Rightarrow> string \<Rightarrow> updates
   \<Rightarrow> error + PreconditionByLayeredAdaptiveRMSState" where
  "precondition_by_layered_adaptive_rms_init_fn decays scales decay_distribution modality params =
     (let count = 0;
          nu = map_pytree zeros_like params
      in bind_res (tree_traverse
                     (generate_per_parameter_array decay_distribution modality decays) params)
           (\<lambda>beta_array.
         bind_res (tree_traverse
                     (generate_per_parameter_array decay_distribution modality scales) params)
           (\<lambda>scale_array.
         Inr \<lparr>PreconditionByLayeredAdaptiveRMSState.count = count, nu = nu,
              beta_array = beta_array, scale_array = scale_array\<rparr>)))"

definition update_moment_general :: "array \<Rightarrow> array \<Rightarrow> array \<Rightarrow> nat \<Rightarrow> error + array" where
  "update_moment_general updates moments beta order =
     elementwise3
       (\<lambda>g t b.
          let one_minus_beta = 1 - b;
              one_minus_beta = (if one_minus_beta \<le> 0 then 1 else one_minus_beta)
          in one_minus_beta * g ^ order + b * t)
       updates moments beta"

definition precondition_by_layered_adaptive_rms_update_fn ::
  "real \<Rightarrow> real \<Rightarrow> updates \<Rightarrow> PreconditionByLayeredAdaptiveRMSState
   \<Rightarrow> error + updates \<times> PreconditionByLayeredAdaptiveRMSState" where
  "precondition_by_layered_adaptive_rms_update_fn eps eps_root updates state =
     bind_res (tree_map3 (\<lambda>g t b. update_moment_general g t b 2) updates
                 (PreconditionByLayeredAdaptiveRMSState.nu state) (beta_array state)) (\<lambda>nu.
     let count = PreconditionByLayeredAdaptiveRMSState.count state + 1
     in bind_res (tree_map3
                    (elementwise3 (\<lambda>m v s. s * (m / (sqrt (v + eps_root) + eps))))
                    updates nu (scale_array state)) (\<lambda>updates.
        Inr (updates,
             \<lparr>PreconditionByLayeredAdaptiveRMSState.count = count, nu = nu,
              beta_array = beta_array state, scale_array = scale_array state\<rparr>)))"

section \<open>transform.py: add_decayed_weights\<close>

text \<open>
  \<^verbatim>\<open>AddDecayedWeightsState\<close> is optax's empty state; the update returns the state it
  was given, whatever it is. \<^verbatim>\<open>params\<close> is an optional argument: \<open>None\<close> is Python's
  \<^verbatim>\<open>None\<close>.

  The statement \<^verbatim>\<open>raise ValueError(optax.NO_PARAMS_MSG)\<close> first looks the attribute
  \<^verbatim>\<open>NO_PARAMS_MSG\<close> up in the module \<^verbatim>\<open>optax\<close>. The result of that lookup is the
  argument \<open>NO_PARAMS_MSG\<close>: \<open>Some\<close> the message, or \<open>None\<close> when the module has no
  such attribute, and then the lookup raises \<^verbatim>\<open>AttributeError\<close> and no
  \<^verbatim>\<open>ValueError\<close> is made. optax defines the message in \<^verbatim>\<open>optax._src.base\<close> and
  does not export it: \<open>optax_NO_PARAMS_MSG\<close> is the lookup in optax as released.
\<close>

definition optax_NO_PARAMS_MSG :: "string option" where
  "optax_NO_PARAMS_MSG = None"

definition add_decayed_weights_update_fn ::
  "string option \<Rightarrow> real \<Rightarrow> real \<Rightarrow> bool \<Rightarrow> updates \<Rightarrow> 's \<Rightarrow> updates option
   \<Rightarrow> error + updates \<times> 's" where
  "add_decayed_weights_update_fn NO_PARAMS_MSG weight_decay learning_rate flip_sign
       updates state params =
     (let m = (if flip_sign then - 1 else 1)
      in case params of
           None \<Rightarrow>
             (case NO_PARAMS_MSG of
                None \<Rightarrow> Inl AttributeError
              | Some msg \<Rightarrow> Inl (ValueError msg))
         | Some params \<Rightarrow>
             bind_res (tree_map2
                         (elementwise2 (\<lambda>g p. g + m * learning_rate * weight_decay * p))
                         updates params) (\<lambda>updates.
             Inr (updates, state)))"

text \<open>
  Two trees of arrays are congruent when they have the same nesting and the same leaf
  shapes.
\<close>

definition congruent :: "'a ndarray pytree \<Rightarrow> 'b ndarray pytree \<Rightarrow> bool" where
  "congruent t u = (map_pytree shape t = map_pytree shape u)"

text \<open>A tree with one array of two elements, and parameters congruent to it.\<close>

definition example_updates :: updates where
  "example_updates = Node ''tuple'' [Leaf (NDArray [2] [1, 2])]"

definition example_params :: updates where
  "example_params = Node ''tuple'' [Leaf (NDArray [2] [10, 20])]"

text \<open>
  The caller's loop: successive calls of the layered update, each given the state the
  previous call returned.
\<close>

fun layered_adaptive_rms_updates ::
  "real \<Rightarrow> real \<Rightarrow> updates list \<Rightarrow> PreconditionByLayeredAdaptiveRMSState
   \<Rightarrow> error + PreconditionByLayeredAdaptiveRMSState" where
  "layered_adaptive_rms_updates eps eps_root [] state = Inr state"
| "layered_adaptive_rms_updates eps eps_root (updates # rest) state =
     bind_res (precondition_by_layered_adaptive_rms_update_fn eps eps_root updates state)
       (\<lambda>(updates', state'). layered_adaptive_rms_updates eps eps_root rest state')"

text \<open>
  Inputs for the examples: the gradient \<^verbatim>\<open>[1.0]\<close>; a matrix of ones; the state that
  \<^verbatim>\<open>init_fn\<close> of the layered preconditioner returns for that matrix with
  \<^verbatim>\<open>decays = [0, 1]\<close>, \<^verbatim>\<open>scales = [1, 2]\<close>, an even distribution and the output
  modality; and an Adam state whose counter has reached the largest int32.
\<close>

definition example_gradient :: updates where
  "example_gradient = Leaf (NDArray [1] [1])"

definition example_matrix :: updates where
  "example_matrix = Leaf (NDArray [2, 3] [1, 1, 1, 1, 1, 1])"

definition example_layered_state :: PreconditionByLayeredAdaptiveRMSState where
  "example_layered_state =
     \<lparr>PreconditionByLayeredAdaptiveRMSState.count = 0,
      nu = Leaf (NDArray [2, 3] [0, 0, 0, 0, 0, 0]),
      beta_array = Leaf (NDArray [1, 3] [0, 1, 1]),
      scale_array = Leaf (NDArray [1, 3] [1, 2, 2])\<rparr>"

definition example_adam_state_at_max :: ScaleByAdamState where
  "example_adam_state_at_max =
     \<lparr>ScaleByAdamState.count = max_int32_value,
      mu = Leaf (NDArray [1] [0]), nu = Leaf (NDArray [1] [0])\<rparr>"

section \<open>Facts about results, trees and broadcasting\<close>

lemma bind_res_Inr_iff:
  "bind_res r f = Inr y \<longleftrightarrow> (\<exists>x. r = Inr x \<and> f x = Inr y)"
  by (cases r) (auto simp: bind_res_def)

lemma bind_res_Inl_iff:
  "bind_res r f = Inl e \<longleftrightarrow> r = Inl e \<or> (\<exists>x. r = Inr x \<and> f x = Inl e)"
  by (cases r) (auto simp: bind_res_def)

lemma bind_res_simps [simp]:
  "bind_res (Inl e) f = Inl e" "bind_res (Inr x) f = f x"
  by (simp_all add: bind_res_def)

lemma tree_zip_error:
  "tree_zip (t :: 'a pytree) (u :: 'b pytree) = Inl e \<Longrightarrow> e = ValueError_tree_structure"
  "forest_zip (ts :: 'a pytree list) (us :: 'b pytree list) = Inl e \<Longrightarrow> e = ValueError_tree_structure"
  by (induction t u and ts us arbitrary: e and e rule: tree_zip_forest_zip.induct)
    (auto simp: bind_res_Inl_iff split: if_splits)

lemma tree_traverse_error:
  "tree_traverse f (t :: 'a pytree) = Inl e \<Longrightarrow> \<exists>x \<in> set_pytree t. f x = Inl e"
  "forest_traverse f (ts :: 'a pytree list) = Inl e \<Longrightarrow> \<exists>t \<in> set ts. \<exists>x \<in> set_pytree t. f x = Inl e"
  by (induction f t and f ts arbitrary: e and e rule: tree_traverse_forest_traverse.induct)
    (auto simp: bind_res_Inl_iff)

lemma tree_traverse_total:
  "(\<forall>x \<in> set_pytree (t :: 'a pytree). f x = Inr (g x)) \<Longrightarrow> tree_traverse f t = Inr (map_pytree g t)"
  "(\<forall>t \<in> set (ts :: 'a pytree list). \<forall>x \<in> set_pytree t. f x = Inr (g x)) \<Longrightarrow>
     forest_traverse f ts = Inr (map (map_pytree g) ts)"
  by (induction f t and f ts rule: tree_traverse_forest_traverse.induct) auto

lemma tree_zip_congruent:
  "map_pytree f (t :: 'a pytree) = map_pytree g (u :: 'b pytree) \<Longrightarrow>
     \<exists>z. tree_zip t u = Inr z \<and> map_pytree fst z = t \<and> map_pytree snd z = u
        \<and> (\<forall>(a, b) \<in> set_pytree z. f a = g b)"
  "map (map_pytree f) (ts :: 'a pytree list) = map (map_pytree g) (us :: 'b pytree list) \<Longrightarrow>
     \<exists>zs. forest_zip ts us = Inr zs \<and> map (map_pytree fst) zs = ts \<and> map (map_pytree snd) zs = us
        \<and> (\<forall>z \<in> set zs. \<forall>(a, b) \<in> set_pytree z. f a = g b)"
  by (induction t u and ts us rule: tree_zip_forest_zip.induct) fastforce+

lemma elementwise2_error: "elementwise2 f a b = Inl e \<Longrightarrow> e = TypeError_incompatible_shapes"
  by (auto simp: elementwise2_def split: option.splits)

lemma unravel_index_less:
  "i < prod_list ds \<Longrightarrow> list_all2 (\<lambda>j d. j < d) (unravel_index ds i) ds"
proof (induction ds arbitrary: i)
  case Nil
  then show ?case by simp
next
  case (Cons d ds)
  then have P: "0 < prod_list ds" by (cases "prod_list ds = 0") auto
  from Cons.prems have "i div prod_list ds < d"
    by (simp add: less_mult_imp_div_less mult.commute)
  moreover have "i mod prod_list ds < prod_list ds" using P by simp
  ultimately show ?case using Cons.IH by simp
qed

lemma ravel_unravel_index:
  "i < prod_list ds \<Longrightarrow> ravel_index ds (unravel_index ds i) = i"
proof (induction ds arbitrary: i)
  case Nil
  then show ?case by simp
next
  case (Cons d ds)
  then have P: "0 < prod_list ds" by (cases "prod_list ds = 0") auto
  then have "i mod prod_list ds < prod_list ds" by simp
  with Cons.IH show ?case by simp
qed

lemma size_one_axes_read_at_0:
  "list_all2 (\<lambda>j d. j < d) js (ds :: nat list) \<Longrightarrow>
   map2 (\<lambda>d j. if d = 1 then 0 else j) ds js = js"
  by (induction js ds rule: list_all2_induct) auto

lemma source_index_same: "i < prod_list s \<Longrightarrow> source_index s s i = i"
  unfolding source_index_def
  using size_one_axes_read_at_0 [OF unravel_index_less, of i s] ravel_unravel_index [of i s]
  by simp

lemma broadcast_to_same:
  assumes "valid_array a"
  shows "broadcast_to (shape a) a = data a"
proof -
  have "broadcast_to (shape a) a = map (\<lambda>i. data a ! i) [0..<prod_list (shape a)]"
    unfolding broadcast_to_def by (intro map_cong) (auto simp: source_index_same)
  also have "\<dots> = data a"
    using assms map_nth [of "data a"] by (simp add: valid_array_def)
  finally show ?thesis .
qed

lemma broadcast_rev_same: "broadcast_rev s s = Some s"
  by (induction s) auto

lemma broadcast_shapes_same: "broadcast_shapes s s = Some s"
  by (simp add: broadcast_shapes_def broadcast_rev_same)

lemma elementwise2_same_shape:
  "valid_array a \<Longrightarrow> valid_array b \<Longrightarrow> shape a = shape b \<Longrightarrow>
   elementwise2 f a b = Inr (NDArray (shape a) (map2 f (data a) (data b)))"
  using broadcast_to_same [of a] broadcast_to_same [of b]
  by (simp add: elementwise2_def broadcast_shapes_same)

section \<open>Weight decay\<close>

text \<open>
  C7. With \<open>params\<close> equal to \<^verbatim>\<open>None\<close> the update of \<open>add_decayed_weights\<close>
  fails, and only then with one of these two exceptions: the \<^verbatim>\<open>ValueError\<close> with the
  missing-parameters message if \<^verbatim>\<open>optax.NO_PARAMS_MSG\<close> exists, and
  \<^verbatim>\<open>AttributeError\<close> if it does not, which is the case in optax as released.
  Otherwise, for updates congruent to the parameters, it returns the state unchanged and
  the tree of the updates with every leaf \<open>g\<close> replaced, element by element, by
  \<open>g + m * learning_rate * weight_decay * p\<close>, where \<open>m\<close> is \<open>-1\<close> if \<open>flip_sign\<close> and
  \<open>1\<close> otherwise.
\<close>

theorem add_decayed_weights_update:
  "add_decayed_weights_update_fn optax_NO_PARAMS_MSG weight_decay learning_rate flip_sign
      updates state None = Inl AttributeError
   \<and> add_decayed_weights_update_fn (Some msg) weight_decay learning_rate flip_sign
      updates state None = Inl (ValueError msg)
   \<and> (add_decayed_weights_update_fn NO_PARAMS_MSG weight_decay learning_rate flip_sign
        updates state params = Inl e \<and> (e = AttributeError \<or> e = ValueError msg) \<longrightarrow>
      params = None)
   \<and> (congruent updates p \<and> pred_pytree valid_array updates \<and> pred_pytree valid_array p \<longrightarrow>
      (\<exists>z. tree_zip updates p = Inr z
         \<and> add_decayed_weights_update_fn NO_PARAMS_MSG weight_decay learning_rate flip_sign
             updates state (Some p)
           = Inr (map_pytree
                    (\<lambda>(g, p). NDArray (shape g)
                       (map2 (\<lambda>g p. g + (if flip_sign then - 1 else 1) * learning_rate * weight_decay * p)
                          (data g) (data p))) z,
                  state)))"
proof (intro conjI impI)
  show "add_decayed_weights_update_fn optax_NO_PARAMS_MSG weight_decay learning_rate flip_sign
      updates state None = Inl AttributeError"
    by (simp add: add_decayed_weights_update_fn_def optax_NO_PARAMS_MSG_def)
next
  show "add_decayed_weights_update_fn (Some msg) weight_decay learning_rate flip_sign
      updates state None = Inl (ValueError msg)"
    by (simp add: add_decayed_weights_update_fn_def)
next
  assume a: "add_decayed_weights_update_fn NO_PARAMS_MSG weight_decay learning_rate flip_sign
        updates state params = Inl e \<and> (e = AttributeError \<or> e = ValueError msg)"
  show "params = None"
  proof (cases params)
    case None
    then show ?thesis .
  next
    case (Some q)
    let ?f = "\<lambda>g p. g + (if flip_sign then - 1 else 1) * learning_rate * weight_decay * p"
    from a Some have "tree_map2 (elementwise2 ?f) updates q = Inl e"
      by (auto simp: add_decayed_weights_update_fn_def Let_def bind_res_Inl_iff)
    then consider "tree_zip updates q = Inl e"
      | z where "tree_traverse (\<lambda>(a, b). elementwise2 ?f a b) z = Inl e"
      by (auto simp: tree_map2_def bind_res_Inl_iff)
    then have "e = ValueError_tree_structure \<or> e = TypeError_incompatible_shapes"
    proof cases
      case 1
      then show ?thesis using tree_zip_error(1) by fastforce
    next
      case 2
      from tree_traverse_error(1) [OF 2] show ?thesis
        by (auto dest: elementwise2_error)
    qed
    with a show ?thesis by auto
  qed
next
  assume a: "congruent updates p \<and> pred_pytree valid_array updates \<and> pred_pytree valid_array p"
  let ?f = "\<lambda>g p. g + (if flip_sign then - 1 else 1) * learning_rate * weight_decay * p"
  let ?G = "\<lambda>(g, p). NDArray (shape g) (map2 ?f (data g) (data p))"
  from a have "map_pytree shape updates = map_pytree shape p"
    by (simp add: congruent_def)
  from tree_zip_congruent(1) [OF this] obtain z where z: "tree_zip updates p = Inr z"
    and zf: "map_pytree fst z = updates" and zs: "map_pytree snd z = p"
    and sh: "\<forall>(a, b) \<in> set_pytree z. shape a = shape b"
    by blast
  have "\<forall>x \<in> set_pytree z. (\<lambda>(a, b). elementwise2 ?f a b) x = Inr (?G x)"
  proof
    fix x assume x: "x \<in> set_pytree z"
    obtain g q where gq: "x = (g, q)" by (cases x)
    from x gq zf have "g \<in> set_pytree updates" by (force simp: pytree.set_map)
    with a have vg: "valid_array g" by (simp add: pytree.pred_set)
    from x gq zs have "q \<in> set_pytree p" by (force simp: pytree.set_map)
    with a have vq: "valid_array q" by (simp add: pytree.pred_set)
    from sh x gq have "shape g = shape q" by auto
    with vg vq gq show "(\<lambda>(a, b). elementwise2 ?f a b) x = Inr (?G x)"
      by (simp add: elementwise2_same_shape)
  qed
  from tree_traverse_total(1) [OF this] z
  have "add_decayed_weights_update_fn NO_PARAMS_MSG weight_decay learning_rate flip_sign
           updates state (Some p) = Inr (map_pytree ?G z, state)"
    by (simp add: add_decayed_weights_update_fn_def tree_map2_def Let_def)
  with z show "\<exists>z. tree_zip updates p = Inr z
         \<and> add_decayed_weights_update_fn NO_PARAMS_MSG weight_decay learning_rate flip_sign
             updates state (Some p) = Inr (map_pytree ?G z, state)"
    by blast
qed

theorem add_decayed_weights_update_witness:
  "add_decayed_weights_update_fn optax_NO_PARAMS_MSG (1 / 10) 1 False example_updates () None
      = Inl AttributeError
   \<and> congruent example_updates example_params
   \<and> pred_pytree valid_array example_updates \<and> pred_pytree valid_array example_params
   \<and> add_decayed_weights_update_fn optax_NO_PARAMS_MSG (1 / 10) 1 False example_updates ()
        (Some example_params)
      = Inr (Node ''tuple'' [Leaf (NDArray [2] [2, 4])], ())"
proof -
  have c: "congruent example_updates example_params"
    and v: "pred_pytree valid_array example_updates" "pred_pytree valid_array example_params"
    by (simp_all add: congruent_def example_updates_def example_params_def valid_array_def)
  have z: "tree_zip example_updates example_params
      = Inr (Node ''tuple'' [Leaf (NDArray [2] [1, 2], NDArray [2] [10, 20])])"
    by (simp add: example_updates_def example_params_def)
  note t = add_decayed_weights_update
    [where weight_decay = "1 / 10" and learning_rate = 1 and flip_sign = False
       and updates = example_updates and state = "()" and NO_PARAMS_MSG = optax_NO_PARAMS_MSG
       and p = example_params]
  from t have 1: "add_decayed_weights_update_fn optax_NO_PARAMS_MSG (1 / 10) 1 False
      example_updates () None = Inl AttributeError"
    by blast
  from t c v z
  have 2: "add_decayed_weights_update_fn optax_NO_PARAMS_MSG (1 / 10) 1 False example_updates ()
      (Some example_params) = Inr (Node ''tuple'' [Leaf (NDArray [2] [2, 4])], ())"
    by simp
  from c v 1 2 show ?thesis by blast
qed

section \<open>Step counters\<close>

lemma max_int32_value_wraps: "sint (max_int32_value + 1) = - 2147483648"
  by (simp add: max_int32_value_def)

lemma safe_int32_increment_max: "safe_int32_increment max_int32_value = max_int32_value"
  by (simp add: safe_int32_increment_def)

lemma safe_int32_increment_below:
  "c <s max_int32_value \<Longrightarrow> safe_int32_increment c = c + 1"
  by (simp add: safe_int32_increment_def)

lemma safe_int32_increment_sint:
  "sint (safe_int32_increment c) = (if sint c < 2147483647 then sint c + 1 else 2147483647)"
proof (cases "c <s max_int32_value")
  case True
  then have lt: "sint c < 2147483647"
    by (simp add: word_sless_alt max_int32_value_def)
  have ge: "- 2147483648 \<le> sint c"
    using sint_ge [of c] by simp
  have "sint (c + 1) = sint c + 1"
    using lt ge by (simp add: sint_word_ariths signed_take_bit_int_eq_self)
  with True lt show ?thesis by (simp add: safe_int32_increment_def)
next
  case False
  then have "\<not> sint c < 2147483647"
    by (simp add: word_sless_alt max_int32_value_def)
  with False show ?thesis by (simp add: safe_int32_increment_def max_int32_value_def)
qed

lemma precondition_by_rms_count:
  "precondition_by_rms_update_fn decay eps eps_root debias power' updates state = Inr (updates', state')
   \<Longrightarrow> PreconditionBySecondMomentCoordinateWiseState.count state'
       = PreconditionBySecondMomentCoordinateWiseState.count state + 1"
  by (auto simp: precondition_by_rms_update_fn_def bind_res_Inr_iff Let_def)

lemma precondition_by_yogi_count:
  "precondition_by_yogi_update_fn b2 eps eps_root debias updates state = Inr (updates', state')
   \<Longrightarrow> PreconditionBySecondMomentCoordinateWiseState.count state'
       = PreconditionBySecondMomentCoordinateWiseState.count state + 1"
  by (auto simp: precondition_by_yogi_update_fn_def bind_res_Inr_iff Let_def)

lemma precondition_by_amsgrad_count:
  "precondition_by_amsgrad_update_fn b2 eps eps_root updates state = Inr (updates', state')
   \<Longrightarrow> PreconditionBySecondMomentCoordinateWiseState.count state'
       = PreconditionBySecondMomentCoordinateWiseState.count state + 1"
  by (auto simp: precondition_by_amsgrad_update_fn_def bind_res_Inr_iff Let_def)

lemma scale_by_adam_count:
  "scale_by_adam_update_fn b1 b2 eps eps_root debias power' updates state = Inr (updates', state')
   \<Longrightarrow> ScaleByAdamState.count state' = ScaleByAdamState.count state + 1"
  by (auto simp: scale_by_adam_update_fn_def bind_res_Inr_iff Let_def)

lemma scale_by_nadam_count:
  "scale_by_nadam_update_fn b1 b2 eps eps_root debias power' updates state = Inr (updates', state')
   \<Longrightarrow> ScaleByAdamState.count state' = ScaleByAdamState.count state + 1"
  by (auto simp: scale_by_nadam_update_fn_def bind_res_Inr_iff Let_def)

lemma layered_adaptive_rms_frame:
  "precondition_by_layered_adaptive_rms_update_fn eps eps_root updates state = Inr (updates', state')
   \<Longrightarrow> state' = state\<lparr>PreconditionByLayeredAdaptiveRMSState.count :=
                         PreconditionByLayeredAdaptiveRMSState.count state + 1,
                       PreconditionByLayeredAdaptiveRMSState.nu :=
                         PreconditionByLayeredAdaptiveRMSState.nu state'\<rparr>"
  by (auto simp: precondition_by_layered_adaptive_rms_update_fn_def bind_res_Inr_iff Let_def)

text \<open>
  C1. Every \<^verbatim>\<open>init_fn\<close> sets the counter to 0, and below the largest int32 every update
  adds 1. At the largest int32 the transforms differ: \<open>bias_correction\<close> increments with
  \<open>safe_int32_increment\<close> and stays there, while \<open>precondition_by_rms\<close>,
  \<open>precondition_by_yogi\<close>, \<open>precondition_by_amsgrad\<close>, \<open>scale_by_adam\<close>,
  \<open>scale_by_nadam\<close> and \<open>precondition_by_layered_adaptive_rms\<close> add 1 in int32
  arithmetic, so their counter wraps from \<open>2147483647\<close> to \<open>-2147483648\<close>.
\<close>

theorem step_counter_wraps_at_max_int32:
  "(precondition_by_rms_update_fn decay eps eps_root debias power' updates state1
      = Inr (updates1, state1') \<longrightarrow>
      PreconditionBySecondMomentCoordinateWiseState.count state1'
        = PreconditionBySecondMomentCoordinateWiseState.count state1 + 1)
   \<and> (precondition_by_yogi_update_fn b2 eps eps_root debias updates state1
      = Inr (updates2, state2') \<longrightarrow>
      PreconditionBySecondMomentCoordinateWiseState.count state2'
        = PreconditionBySecondMomentCoordinateWiseState.count state1 + 1)
   \<and> (precondition_by_amsgrad_update_fn b2 eps eps_root updates state1
      = Inr (updates3, state3') \<longrightarrow>
      PreconditionBySecondMomentCoordinateWiseState.count state3'
        = PreconditionBySecondMomentCoordinateWiseState.count state1 + 1)
   \<and> (scale_by_adam_update_fn b1 b2 eps eps_root debias power' updates state4
      = Inr (updates4, state4') \<longrightarrow>
      ScaleByAdamState.count state4' = ScaleByAdamState.count state4 + 1)
   \<and> (scale_by_nadam_update_fn b1 b2 eps eps_root debias power' updates state4
      = Inr (updates5, state5') \<longrightarrow>
      ScaleByAdamState.count state5' = ScaleByAdamState.count state4 + 1)
   \<and> (precondition_by_layered_adaptive_rms_update_fn eps eps_root updates state6
      = Inr (updates6, state6') \<longrightarrow>
      PreconditionByLayeredAdaptiveRMSState.count state6'
        = PreconditionByLayeredAdaptiveRMSState.count state6 + 1)
   \<and> sint (max_int32_value + 1) = - 2147483648
   \<and> BiasCorrectionState.count (snd (bias_correction_update_fn decay updates state7))
        = safe_int32_increment (BiasCorrectionState.count state7)
   \<and> safe_int32_increment max_int32_value = max_int32_value
   \<and> PreconditionBySecondMomentCoordinateWiseState.count (precondition_by_rms_init_fn params) = 0
   \<and> PreconditionBySecondMomentCoordinateWiseState.count
        (precondition_by_yogi_init_fn initial_accumulator_value params) = 0
   \<and> PreconditionBySecondMomentCoordinateWiseState.count
        (precondition_by_amsgrad_init_fn params) = 0
   \<and> ScaleByAdamState.count (scale_by_adam_init_fn params) = 0
   \<and> ScaleByAdamState.count (scale_by_nadam_init_fn params) = 0
   \<and> BiasCorrectionState.count (bias_correction_init_fn params) = 0
   \<and> (precondition_by_layered_adaptive_rms_init_fn decays scales decay_distribution modality
        params = Inr state0 \<longrightarrow>
      PreconditionByLayeredAdaptiveRMSState.count state0 = 0)"
proof (intro conjI impI)
  assume "precondition_by_rms_update_fn decay eps eps_root debias power' updates state1
      = Inr (updates1, state1')"
  then show "PreconditionBySecondMomentCoordinateWiseState.count state1'
        = PreconditionBySecondMomentCoordinateWiseState.count state1 + 1"
    by (rule precondition_by_rms_count)
next
  assume "precondition_by_yogi_update_fn b2 eps eps_root debias updates state1
      = Inr (updates2, state2')"
  then show "PreconditionBySecondMomentCoordinateWiseState.count state2'
        = PreconditionBySecondMomentCoordinateWiseState.count state1 + 1"
    by (rule precondition_by_yogi_count)
next
  assume "precondition_by_amsgrad_update_fn b2 eps eps_root updates state1
      = Inr (updates3, state3')"
  then show "PreconditionBySecondMomentCoordinateWiseState.count state3'
        = PreconditionBySecondMomentCoordinateWiseState.count state1 + 1"
    by (rule precondition_by_amsgrad_count)
next
  assume "scale_by_adam_update_fn b1 b2 eps eps_root debias power' updates state4
      = Inr (updates4, state4')"
  then show "ScaleByAdamState.count state4' = ScaleByAdamState.count state4 + 1"
    by (rule scale_by_adam_count)
next
  assume "scale_by_nadam_update_fn b1 b2 eps eps_root debias power' updates state4
      = Inr (updates5, state5')"
  then show "ScaleByAdamState.count state5' = ScaleByAdamState.count state4 + 1"
    by (rule scale_by_nadam_count)
next
  assume "precondition_by_layered_adaptive_rms_update_fn eps eps_root updates state6
      = Inr (updates6, state6')"
  from layered_adaptive_rms_frame [OF this]
  show "PreconditionByLayeredAdaptiveRMSState.count state6'
        = PreconditionByLayeredAdaptiveRMSState.count state6 + 1"
    by (cases state6, cases state6') simp
next
  show "sint (max_int32_value + 1) = - 2147483648"
    by (rule max_int32_value_wraps)
next
  show "BiasCorrectionState.count (snd (bias_correction_update_fn decay updates state7))
        = safe_int32_increment (BiasCorrectionState.count state7)"
    by (simp add: bias_correction_update_fn_def Let_def)
next
  show "safe_int32_increment max_int32_value = max_int32_value"
    by (rule safe_int32_increment_max)
next
  show "PreconditionBySecondMomentCoordinateWiseState.count (precondition_by_rms_init_fn params) = 0"
    by (simp add: precondition_by_rms_init_fn_def)
next
  show "PreconditionBySecondMomentCoordinateWiseState.count
        (precondition_by_yogi_init_fn initial_accumulator_value params) = 0"
    by (simp add: precondition_by_yogi_init_fn_def)
next
  show "PreconditionBySecondMomentCoordinateWiseState.count
        (precondition_by_amsgrad_init_fn params) = 0"
    by (simp add: precondition_by_amsgrad_init_fn_def)
next
  show "ScaleByAdamState.count (scale_by_adam_init_fn params) = 0"
    by (simp add: scale_by_adam_init_fn_def)
next
  show "ScaleByAdamState.count (scale_by_nadam_init_fn params) = 0"
    by (simp add: scale_by_nadam_init_fn_def)
next
  show "BiasCorrectionState.count (bias_correction_init_fn params) = 0"
    by (simp add: bias_correction_init_fn_def)
next
  assume "precondition_by_layered_adaptive_rms_init_fn decays scales decay_distribution modality
        params = Inr state0"
  then show "PreconditionByLayeredAdaptiveRMSState.count state0 = 0"
    by (auto simp: precondition_by_layered_adaptive_rms_init_fn_def bind_res_Inr_iff Let_def)
qed

lemma scale_by_adam_at_max:
  "scale_by_adam_update_fn (9 / 10) (999 / 1000) (1 / 10 ^ 8) 0 False (1 / 2)
     example_gradient example_adam_state_at_max
   = Inr (Leaf (NDArray [1] [(1 / 10) / (sqrt (1 / 1000) + 1 / 10 ^ 8)]),
          \<lparr>ScaleByAdamState.count = max_int32_value + 1,
           mu = Leaf (NDArray [1] [1 / 10]), nu = Leaf (NDArray [1] [1 / 1000])\<rparr>)"
  by (simp add: scale_by_adam_update_fn_def example_gradient_def example_adam_state_at_max_def
      update_moment_def tree_map2_def elementwise2_def broadcast_to_def source_index_def
      broadcast_shapes_def raise_power_def)

theorem step_counter_wraps_at_max_int32_witness:
  "(\<exists>updates' state'.
      scale_by_adam_update_fn (9 / 10) (999 / 1000) (1 / 10 ^ 8) 0 False (1 / 2)
        example_gradient example_adam_state_at_max = Inr (updates', state')
      \<and> sint (ScaleByAdamState.count example_adam_state_at_max) = 2147483647
      \<and> sint (ScaleByAdamState.count state') = - 2147483648)
   \<and> sint (BiasCorrectionState.count (snd (bias_correction_update_fn (9 / 10) example_gradient
        \<lparr>BiasCorrectionState.count = max_int32_value\<rparr>))) = 2147483647"
proof -
  let ?s = "\<lparr>ScaleByAdamState.count = max_int32_value + 1,
           mu = Leaf (NDArray [1] [1 / 10]), nu = Leaf (NDArray [1] [1 / 1000])\<rparr>"
  note t = step_counter_wraps_at_max_int32
    [of "9 / 10" "1 / 10 ^ 8" 0 False "1 / 2" example_gradient _ _ _ "999 / 1000" _ _ _ _
        "9 / 10" example_adam_state_at_max
        "Leaf (NDArray [1] [(1 / 10) / (sqrt (1 / 1000) + 1 / 10 ^ 8)])" ?s
        _ _ _ _ _ "\<lparr>BiasCorrectionState.count = max_int32_value\<rparr>"]
  from t scale_by_adam_at_max
  have c: "ScaleByAdamState.count ?s = ScaleByAdamState.count example_adam_state_at_max + 1"
    by blast
  have m: "ScaleByAdamState.count example_adam_state_at_max = max_int32_value"
    by (simp add: example_adam_state_at_max_def)
  from t have w: "sint (max_int32_value + 1) = - 2147483648" by blast
  have 1: "sint (ScaleByAdamState.count example_adam_state_at_max) = 2147483647"
    by (simp add: m max_int32_value_def)
  from c m w have 2: "sint (ScaleByAdamState.count ?s) = - 2147483648" by simp
  from t have "BiasCorrectionState.count (snd (bias_correction_update_fn (9 / 10) example_gradient
        \<lparr>BiasCorrectionState.count = max_int32_value\<rparr>)) = max_int32_value"
    by simp
  then have 3: "sint (BiasCorrectionState.count (snd (bias_correction_update_fn (9 / 10)
        example_gradient \<lparr>BiasCorrectionState.count = max_int32_value\<rparr>))) = 2147483647"
    by (simp add: max_int32_value_def)
  from scale_by_adam_at_max 1 2 3 show ?thesis by blast
qed

section \<open>Adam, one step\<close>



section \<open>The per-parameter arrays of the layered preconditioner\<close>

lemma tree_traverse_map_pytree:
  "tree_traverse f (map_pytree h (t :: 'a pytree)) = tree_traverse (\<lambda>x. f (h x)) t"
  "forest_traverse f (map (map_pytree h) (ts :: 'a pytree list)) = forest_traverse (\<lambda>x. f (h x)) ts"
  by (induction "\<lambda>x. f (h x)" t and "\<lambda>x. f (h x)" ts rule: tree_traverse_forest_traverse.induct)
    simp_all

lemma generate_per_parameter_array_shape:
  "generate_per_parameter_array decay_distribution modality arr params
   = generate_per_parameter_array decay_distribution modality arr (NDArray (shape params) [])"
  by (simp add: generate_per_parameter_array_def Let_def)

lemma per_parameter_arrays_of_shapes:
  assumes "map_pytree shape params = map_pytree shape params'"
  shows "tree_traverse (generate_per_parameter_array decay_distribution modality arr) params
       = tree_traverse (generate_per_parameter_array decay_distribution modality arr) params'"
proof -
  let ?g = "generate_per_parameter_array decay_distribution modality arr"
  have "tree_traverse ?g q = tree_traverse (\<lambda>s. ?g (NDArray s [])) (map_pytree shape q)" for q
    using generate_per_parameter_array_shape [of decay_distribution modality arr]
    by (simp add: tree_traverse_map_pytree(1) [where f = "\<lambda>s. ?g (NDArray s [])"])
  with assms show ?thesis by simp
qed

lemma layered_adaptive_rms_updates_frame:
  "layered_adaptive_rms_updates eps eps_root us state = Inr state' \<Longrightarrow>
   beta_array state' = beta_array state \<and> scale_array state' = scale_array state"
proof (induction us arbitrary: state)
  case Nil
  then show ?case by simp
next
  case (Cons u us)
  from Cons.prems obtain updates1 state1 where
    1: "precondition_by_layered_adaptive_rms_update_fn eps eps_root u state = Inr (updates1, state1)"
    and 2: "layered_adaptive_rms_updates eps eps_root us state1 = Inr state'"
    by (auto simp: bind_res_Inr_iff)
  from layered_adaptive_rms_frame [OF 1]
  have "beta_array state1 = beta_array state \<and> scale_array state1 = scale_array state"
    by (cases state, cases state1) simp
  with Cons.IH [OF 2] show ?case by simp
qed

text \<open>
  C5. \<^verbatim>\<open>init_fn\<close> of \<open>precondition_by_layered_adaptive_rms\<close> computes \<open>beta_array\<close>
  and \<open>scale_array\<close> with \<open>generate_per_parameter_array\<close> from the partition scheme, and
  they depend on the parameters through their shapes only. An update returns both
  unchanged: the new state is the old one with \<open>count\<close> and \<open>nu\<close> replaced, and so it
  is after any number of updates.
\<close>

theorem layered_adaptive_rms_arrays_frozen:
  "(precondition_by_layered_adaptive_rms_init_fn decays scales decay_distribution modality params
      = Inr state0 \<longrightarrow>
      tree_traverse (generate_per_parameter_array decay_distribution modality decays) params
        = Inr (beta_array state0)
      \<and> tree_traverse (generate_per_parameter_array decay_distribution modality scales) params
        = Inr (scale_array state0))
   \<and> (map_pytree shape params = map_pytree shape params' \<longrightarrow>
      map_sum id beta_array
        (precondition_by_layered_adaptive_rms_init_fn decays scales decay_distribution modality params)
      = map_sum id beta_array
        (precondition_by_layered_adaptive_rms_init_fn decays scales decay_distribution modality params')
      \<and> map_sum id scale_array
        (precondition_by_layered_adaptive_rms_init_fn decays scales decay_distribution modality params)
      = map_sum id scale_array
        (precondition_by_layered_adaptive_rms_init_fn decays scales decay_distribution modality params'))
   \<and> (precondition_by_layered_adaptive_rms_update_fn eps eps_root updates state
      = Inr (updates', state') \<longrightarrow>
      beta_array state' = beta_array state \<and> scale_array state' = scale_array state
      \<and> state' = state\<lparr>PreconditionByLayeredAdaptiveRMSState.count :=
                         PreconditionByLayeredAdaptiveRMSState.count state + 1,
                       PreconditionByLayeredAdaptiveRMSState.nu :=
                         PreconditionByLayeredAdaptiveRMSState.nu state'\<rparr>)
   \<and> (layered_adaptive_rms_updates eps eps_root updates_list state = Inr state'' \<longrightarrow>
      beta_array state'' = beta_array state \<and> scale_array state'' = scale_array state)"
proof (intro conjI impI)
  assume i: "precondition_by_layered_adaptive_rms_init_fn decays scales decay_distribution
      modality params = Inr state0"
  then show "tree_traverse (generate_per_parameter_array decay_distribution modality decays) params
        = Inr (beta_array state0)"
    by (auto simp: precondition_by_layered_adaptive_rms_init_fn_def bind_res_Inr_iff Let_def)
  from i show "tree_traverse (generate_per_parameter_array decay_distribution modality scales) params
        = Inr (scale_array state0)"
    by (auto simp: precondition_by_layered_adaptive_rms_init_fn_def bind_res_Inr_iff Let_def)
next
  assume s: "map_pytree shape params = map_pytree shape params'"
  note b = per_parameter_arrays_of_shapes [OF s, of decay_distribution modality decays]
  note c = per_parameter_arrays_of_shapes [OF s, of decay_distribution modality scales]
  show "map_sum id beta_array
        (precondition_by_layered_adaptive_rms_init_fn decays scales decay_distribution modality params)
      = map_sum id beta_array
        (precondition_by_layered_adaptive_rms_init_fn decays scales decay_distribution modality params')"
    by (simp add: precondition_by_layered_adaptive_rms_init_fn_def b c bind_res_def Let_def
        split: sum.splits)
  show "map_sum id scale_array
        (precondition_by_layered_adaptive_rms_init_fn decays scales decay_distribution modality params)
      = map_sum id scale_array
        (precondition_by_layered_adaptive_rms_init_fn decays scales decay_distribution modality params')"
    by (simp add: precondition_by_layered_adaptive_rms_init_fn_def b c bind_res_def Let_def
        split: sum.splits)
next
  assume u: "precondition_by_layered_adaptive_rms_update_fn eps eps_root updates state
      = Inr (updates', state')"
  note f = layered_adaptive_rms_frame [OF u]
  from f show "beta_array state' = beta_array state"
    by (cases state, cases state') simp
  from f show "scale_array state' = scale_array state"
    by (cases state, cases state') simp
  from f show "state' = state\<lparr>PreconditionByLayeredAdaptiveRMSState.count :=
                         PreconditionByLayeredAdaptiveRMSState.count state + 1,
                       PreconditionByLayeredAdaptiveRMSState.nu :=
                         PreconditionByLayeredAdaptiveRMSState.nu state'\<rparr>" .
next
  assume "layered_adaptive_rms_updates eps eps_root updates_list state = Inr state''"
  from layered_adaptive_rms_updates_frame [OF this]
  show "beta_array state'' = beta_array state" and "scale_array state'' = scale_array state"
    by simp_all
qed

lemma example_layered_init:
  "precondition_by_layered_adaptive_rms_init_fn [0, 1] [1, 2] [1 / 2, 1 / 2] ''output''
     example_matrix = Inr example_layered_state"
  by (simp add: precondition_by_layered_adaptive_rms_init_fn_def example_matrix_def
      example_layered_state_def generate_per_parameter_array_def generate_partition_def
      py_getitem_def py_setitem_def jnp_repeat_def jnp_reshape_def zeros_like_def Let_def
      numeral_eq_Suc)

lemma example_layered_update:
  "precondition_by_layered_adaptive_rms_update_fn 0 0 example_matrix example_layered_state
   = Inr (Leaf (NDArray [2, 3] [1, 2, 2, 1, 2, 2]),
          \<lparr>PreconditionByLayeredAdaptiveRMSState.count = 1,
           nu = Leaf (NDArray [2, 3] [1, 1, 1, 1, 1, 1]),
           beta_array = Leaf (NDArray [1, 3] [0, 1, 1]),
           scale_array = Leaf (NDArray [1, 3] [1, 2, 2])\<rparr>)"
  by (simp add: precondition_by_layered_adaptive_rms_update_fn_def example_matrix_def
      example_layered_state_def update_moment_general_def tree_map3_def elementwise3_def
      broadcast_shapes_def broadcast_to_def source_index_def Let_def upt_conv_Cons)

theorem layered_adaptive_rms_arrays_frozen_witness:
  "precondition_by_layered_adaptive_rms_init_fn [0, 1] [1, 2] [1 / 2, 1 / 2] ''output''
     example_matrix = Inr example_layered_state
   \<and> tree_traverse (generate_per_parameter_array [1 / 2, 1 / 2] ''output'' [0, 1]) example_matrix
     = Inr (Leaf (NDArray [1, 3] [0, 1, 1]))
   \<and> (\<exists>updates' state'.
        precondition_by_layered_adaptive_rms_update_fn 0 0 example_matrix example_layered_state
          = Inr (updates', state')
        \<and> PreconditionByLayeredAdaptiveRMSState.nu state'
          \<noteq> PreconditionByLayeredAdaptiveRMSState.nu example_layered_state
        \<and> beta_array state' = Leaf (NDArray [1, 3] [0, 1, 1])
        \<and> scale_array state' = Leaf (NDArray [1, 3] [1, 2, 2]))"
proof -
  let ?s = "\<lparr>PreconditionByLayeredAdaptiveRMSState.count = 1,
           nu = Leaf (NDArray [2, 3] [1, 1, 1, 1, 1, 1]),
           beta_array = Leaf (NDArray [1, 3] [0, 1, 1]),
           scale_array = Leaf (NDArray [1, 3] [1, 2, 2])\<rparr>"
  note t = layered_adaptive_rms_arrays_frozen
    [where decays = "[0, 1]" and scales = "[1, 2]" and decay_distribution = "[1 / 2, 1 / 2]"
       and modality = "''output''" and params = example_matrix and state0 = example_layered_state
       and eps = 0 and eps_root = 0 and updates = example_matrix and state = example_layered_state
       and updates' = "Leaf (NDArray [2, 3] [1, 2, 2, 1, 2, 2])" and state' = ?s]
  from t example_layered_init
  have 1: "tree_traverse (generate_per_parameter_array [1 / 2, 1 / 2] ''output'' [0, 1])
      example_matrix = Inr (beta_array example_layered_state)"
    by blast
  from t example_layered_update
  have 2: "beta_array ?s = beta_array example_layered_state
      \<and> scale_array ?s = scale_array example_layered_state"
    by blast
  have 3: "PreconditionByLayeredAdaptiveRMSState.nu ?s
          \<noteq> PreconditionByLayeredAdaptiveRMSState.nu example_layered_state"
    by (simp add: example_layered_state_def)
  have 4: "beta_array example_layered_state = Leaf (NDArray [1, 3] [0, 1, 1])"
    "scale_array example_layered_state = Leaf (NDArray [1, 3] [1, 2, 2])"
    by (simp_all add: example_layered_state_def)
  from example_layered_init example_layered_update 1 2 3 4 show ?thesis
    by (metis (no_types, lifting))
qed

section \<open>The partition of an axis\<close>

lemma sum_list_floor_le:
  "0 \<le> c \<Longrightarrow> real_of_int (sum_list (map (\<lambda>d. \<lfloor>d * c\<rfloor>) ds)) \<le> sum_list ds * c"
proof (induction ds)
  case Nil
  then show ?case by simp
next
  case (Cons d ds)
  have "real_of_int \<lfloor>d * c\<rfloor> \<le> d * c" by simp
  moreover from Cons have "real_of_int (sum_list (map (\<lambda>d. \<lfloor>d * c\<rfloor>) ds)) \<le> sum_list ds * c"
    by simp
  ultimately show ?case by (simp add: distrib_right add_mono)
qed

lemma length_concat_replicate:
  "length a = length ms \<Longrightarrow>
   length (concat (map2 (\<lambda>x r. replicate (nat r) x) a ms)) = sum_list (map nat ms)"
  by (induction a ms rule: list_induct2) auto

lemma sum_list_map_nat:
  "list_all (\<lambda>m. 0 \<le> m) ms \<Longrightarrow> sum_list (map nat ms) = nat (sum_list ms)"
proof (induction ms)
  case Nil
  then show ?case by simp
next
  case (Cons m ms)
  then have "0 \<le> sum_list ms" by (auto simp: list_all_iff intro: sum_list_nonneg)
  with Cons show ?case by (simp add: nat_add_distrib)
qed



section \<open>NAdam and Adam\<close>

text \<open>
  The shape an elementwise operation on two shapes returns, or its \<^verbatim>\<open>TypeError\<close>:
  whether a \<^verbatim>\<open>tree_map\<close> of an elementwise \<^verbatim>\<open>lambda\<close> succeeds depends on the
  structures and the leaf shapes only, not on the values.
\<close>

definition broadcast_result :: "nat list \<Rightarrow> nat list \<Rightarrow> error + nat list" where
  "broadcast_result s t =
     (case broadcast_shapes s t of
        None \<Rightarrow> Inl TypeError_incompatible_shapes
      | Some r \<Rightarrow> Inr r)"

lemma shape_elementwise2:
  "map_sum id shape (elementwise2 f a b) = broadcast_result (shape a) (shape b)"
  by (simp add: elementwise2_def broadcast_result_def split: option.splits)

lemma tree_zip_map_pytree:
  "tree_zip (map_pytree f (t :: 'a pytree)) (map_pytree g (u :: 'b pytree))
     = map_sum id (map_pytree (map_prod f g)) (tree_zip t u)"
  "forest_zip (map (map_pytree f) (ts :: 'a pytree list)) (map (map_pytree g) (us :: 'b pytree list))
     = map_sum id (map (map_pytree (map_prod f g))) (forest_zip ts us)"
  by (induction t u and ts us rule: tree_zip_forest_zip.induct)
    (auto simp: bind_res_def split: sum.splits)

lemma tree_traverse_natural:
  "(\<forall>x. map_sum id k (F x) = G (p x)) \<Longrightarrow>
   map_sum id (map_pytree k) (tree_traverse F (t :: 'a pytree)) = tree_traverse G (map_pytree p t)"
  "(\<forall>x. map_sum id k (F x) = G (p x)) \<Longrightarrow>
   map_sum id (map (map_pytree k)) (forest_traverse F (ts :: 'a pytree list))
       = forest_traverse G (map (map_pytree p) ts)"
proof (induction F t and F ts rule: tree_traverse_forest_traverse.induct)
  case (1 f a)
  then have "G (p a) = map_sum id k (f a)" by (simp add: id_def)
  then show ?case by (cases "f a") (simp_all add: bind_res_def)
next
  case (2 f k ts)
  then show ?case by (auto simp: bind_res_def split: sum.splits)
next
  case (3 f)
  show ?case by simp
next
  case (4 f t ts)
  then show ?case by (auto simp: bind_res_def split: sum.splits)
qed

lemma shapes_tree_map2_elementwise2:
  "map_sum id (map_pytree shape) (tree_map2 (elementwise2 f) t u)
   = tree_map2 broadcast_result (map_pytree shape t) (map_pytree shape u)"
proof (cases "tree_zip t u")
  case (Inl e)
  then show ?thesis by (simp add: tree_map2_def tree_zip_map_pytree)
next
  case (Inr z)
  have "map_sum id (map_pytree shape) (tree_traverse (\<lambda>(a, b). elementwise2 f a b) z)
      = tree_traverse (\<lambda>(a, b). broadcast_result a b) (map_pytree (map_prod shape shape) z)"
    by (rule tree_traverse_natural(1)) (auto simp: shape_elementwise2)
  with Inr show ?thesis by (simp add: tree_map2_def tree_zip_map_pytree)
qed

lemma broadcast_rev_idem: "broadcast_rev xs ys = Some rs \<Longrightarrow> broadcast_rev xs rs = Some rs"
proof (induction xs ys arbitrary: rs rule: broadcast_rev.induct)
  case (1 ys)
  then show ?case by simp
next
  case (2 x xs)
  then show ?case by (simp add: broadcast_rev_same)
next
  case (3 x xs y ys)
  then show ?case by (auto split: if_splits)
qed

lemma broadcast_result_idem: "broadcast_result s t = Inr r \<Longrightarrow> broadcast_result s r = Inr r"
proof -
  assume "broadcast_result s t = Inr r"
  then have "broadcast_rev (rev s) (rev t) = Some (rev r)"
    by (auto simp: broadcast_result_def broadcast_shapes_def split: option.splits)
  from broadcast_rev_idem [OF this] show ?thesis
    by (simp add: broadcast_result_def broadcast_shapes_def)
qed

lemma tree_map2_idem_aux:
  "(\<forall>a b r. h a b = Inr r \<longrightarrow> h a r = Inr r) \<Longrightarrow>
   tree_zip (s :: 'a pytree) (t :: 'b pytree) = Inr z \<Longrightarrow>
   tree_traverse (\<lambda>(a, b). h a b) z = Inr r \<Longrightarrow>
   \<exists>z'. tree_zip s r = Inr z' \<and> tree_traverse (\<lambda>(a, b). h a b) z' = Inr r"
  "(\<forall>a b r. h a b = Inr r \<longrightarrow> h a r = Inr r) \<Longrightarrow>
   forest_zip (ss :: 'a pytree list) (ts :: 'b pytree list) = Inr zs \<Longrightarrow>
   forest_traverse (\<lambda>(a, b). h a b) zs = Inr rs \<Longrightarrow>
   \<exists>zs'. forest_zip ss rs = Inr zs' \<and> forest_traverse (\<lambda>(a, b). h a b) zs' = Inr rs"
proof (induction s t and ss ts arbitrary: z r and zs rs rule: tree_zip_forest_zip.induct)
  case (1 a b)
  from "1.prems"(2,3) obtain c where "h a b = Inr c" "r = Leaf c"
    by (auto simp: bind_res_Inr_iff)
  with "1.prems"(1) show ?case by auto
next
  case (2 k ts k' us)
  from "2.prems"(2) obtain zs where k: "k = k'" and zs: "forest_zip ts us = Inr zs"
    and z: "z = Node k zs"
    by (auto simp: bind_res_Inr_iff split: if_splits)
  from "2.prems"(3) z obtain rs where rs: "forest_traverse (\<lambda>(a, b). h a b) zs = Inr rs"
    and r: "r = Node k rs"
    by (auto simp: bind_res_Inr_iff)
  from "2.IH" [OF k "2.prems"(1) zs rs] obtain zs' where
    "forest_zip ts rs = Inr zs'" "forest_traverse (\<lambda>(a, b). h a b) zs' = Inr rs"
    by blast
  with r show ?case by auto
next
  case (3 a k' us)
  then show ?case by simp
next
  case (4 k ts b)
  then show ?case by simp
next
  case 5
  then show ?case by auto
next
  case (6 t ts u us)
  from "6.prems"(2) obtain z1 zs1 where z1: "tree_zip t u = Inr z1"
    and zs1: "forest_zip ts us = Inr zs1" and zs: "zs = z1 # zs1"
    by (auto simp: bind_res_Inr_iff)
  from "6.prems"(3) zs obtain r1 rs1 where r1: "tree_traverse (\<lambda>(a, b). h a b) z1 = Inr r1"
    and rs1: "forest_traverse (\<lambda>(a, b). h a b) zs1 = Inr rs1" and rs: "rs = r1 # rs1"
    by (auto simp: bind_res_Inr_iff)
  from "6.IH"(1) [OF "6.prems"(1) z1 r1] obtain z1' where
    a: "tree_zip t r1 = Inr z1'" "tree_traverse (\<lambda>(a, b). h a b) z1' = Inr r1"
    by blast
  from "6.IH"(2) [OF "6.prems"(1) zs1 rs1] obtain zs1' where
    b: "forest_zip ts rs1 = Inr zs1'" "forest_traverse (\<lambda>(a, b). h a b) zs1' = Inr rs1"
    by blast
  from a b rs show ?case by auto
next
  case (7 u us)
  then show ?case by simp
next
  case (8 t ts)
  then show ?case by simp
qed

lemma tree_map2_idem:
  assumes "\<And>a b r. h a b = Inr r \<Longrightarrow> h a r = Inr r"
    and "tree_map2 h s t = Inr r"
  shows "tree_map2 h s r = Inr r"
proof -
  from assms(2) obtain z where z: "tree_zip s t = Inr z"
    and r: "tree_traverse (\<lambda>(a, b). h a b) z = Inr r"
    by (auto simp: tree_map2_def bind_res_Inr_iff)
  from assms(1) have "\<forall>a b r. h a b = Inr r \<longrightarrow> h a r = Inr r" by blast
  from tree_map2_idem_aux(1) [OF this z r] show ?thesis
    by (auto simp: tree_map2_def)
qed

lemma shapes_bias_correction:
  "map_pytree shape (bias_correction m decay c) = map_pytree shape m"
  by (simp add: bias_correction_def Let_def pytree.map_comp o_def elementwise1_def)

lemma update_moment_twice:
  assumes "update_moment updates m decay order = Inr m1"
  shows "\<exists>m2. update_moment updates m1 decay' order' = Inr m2
           \<and> map_pytree shape m2 = map_pytree shape m1"
proof -
  from assms have "tree_map2 broadcast_result (map_pytree shape updates) (map_pytree shape m)
      = Inr (map_pytree shape m1)"
    using shapes_tree_map2_elementwise2
      [of "\<lambda>g t. (1 - decay) * g ^ order + decay * t" updates m]
    by (simp add: update_moment_def)
  from tree_map2_idem [OF broadcast_result_idem this]
  have "map_sum id (map_pytree shape) (update_moment updates m1 decay' order')
      = Inr (map_pytree shape m1)"
    by (simp add: update_moment_def shapes_tree_map2_elementwise2)
  then show ?thesis by (cases "update_moment updates m1 decay' order'") auto
qed

lemma tree_map2_elementwise2_shapes_cong:
  assumes "map_pytree shape t = map_pytree shape t'" "map_pytree shape u = map_pytree shape u'"
  shows "map_sum id (map_pytree shape) (tree_map2 (elementwise2 f) t u)
       = map_sum id (map_pytree shape) (tree_map2 (elementwise2 g) t' u')"
  by (simp add: shapes_tree_map2_elementwise2 assms)

text \<open>
  C4. With the same hyperparameters and inputs, the update of \<open>scale_by_nadam\<close> fails
  when that of \<open>scale_by_adam\<close> does, with the same error, and otherwise returns the same
  new state (\<open>count\<close>, \<open>mu\<close>, \<open>nu\<close>). The returned updates differ in the numerator
  only: both divide by \<open>raise_power (nu_hat + eps_root) + eps\<close> with the same \<open>nu_hat\<close>;
  Adam divides the (debiased) new first moment \<open>mu\<close>, NAdam the (debiased) result of
  applying the moment update to \<open>mu\<close> once more with the current gradient.
\<close>

theorem scale_by_nadam_same_state_as_adam:
  "map_sum id snd (scale_by_nadam_update_fn b1 b2 eps eps_root debias power' updates state)
   = map_sum id snd (scale_by_adam_update_fn b1 b2 eps eps_root debias power' updates state)
   \<and> (scale_by_adam_update_fn b1 b2 eps eps_root debias power' updates state
        = Inr (updates_adam, state') \<longrightarrow>
      (\<exists>mu_twice updates_nadam.
         scale_by_nadam_update_fn b1 b2 eps eps_root debias power' updates state
           = Inr (updates_nadam, state')
         \<and> update_moment updates (ScaleByAdamState.mu state) b1 1
           = Inr (ScaleByAdamState.mu state')
         \<and> update_moment updates (ScaleByAdamState.mu state') b1 1 = Inr mu_twice
         \<and> tree_map2 (elementwise2 (\<lambda>m v. m / (raise_power power' (v + eps_root) + eps)))
             (if \<not> debias then ScaleByAdamState.mu state'
              else bias_correction (ScaleByAdamState.mu state') b1 (ScaleByAdamState.count state'))
             (if \<not> debias then ScaleByAdamState.nu state'
              else bias_correction (ScaleByAdamState.nu state') b2 (ScaleByAdamState.count state'))
           = Inr updates_adam
         \<and> tree_map2 (elementwise2 (\<lambda>m v. m / (raise_power power' (v + eps_root) + eps)))
             (if \<not> debias then mu_twice
              else bias_correction mu_twice b1 (ScaleByAdamState.count state'))
             (if \<not> debias then ScaleByAdamState.nu state'
              else bias_correction (ScaleByAdamState.nu state') b2 (ScaleByAdamState.count state'))
           = Inr updates_nadam))"
proof -
  let ?div = "elementwise2 (\<lambda>m v. m / (raise_power power' (v + eps_root) + eps))"
  let ?c = "ScaleByAdamState.count state + 1"
  let ?hat = "\<lambda>m b. if \<not> debias then m else bias_correction m b ?c"
  show ?thesis
  proof (cases "update_moment updates (ScaleByAdamState.mu state) b1 1")
    case (Inl e)
    then show ?thesis
      by (simp add: scale_by_nadam_update_fn_def scale_by_adam_update_fn_def)
  next
    case mu: (Inr mu1)
    show ?thesis
    proof (cases "update_moment updates (ScaleByAdamState.nu state) b2 2")
      case (Inl e)
      with mu show ?thesis
        by (simp add: scale_by_nadam_update_fn_def scale_by_adam_update_fn_def)
    next
      case nu: (Inr nu1)
      from update_moment_twice [OF mu, of b1 1] obtain mu2
        where mu2: "update_moment updates mu1 b1 1 = Inr mu2"
          and sh: "map_pytree shape mu2 = map_pytree shape mu1"
        by blast
      have sh_hat: "map_pytree shape (?hat mu2 b1) = map_pytree shape (?hat mu1 b1)"
        using sh by (simp add: shapes_bias_correction)
      have same: "map_sum id (map_pytree shape) (tree_map2 ?div (?hat mu2 b1) (?hat nu1 b2))
          = map_sum id (map_pytree shape) (tree_map2 ?div (?hat mu1 b1) (?hat nu1 b2))"
        by (rule tree_map2_elementwise2_shapes_cong [OF sh_hat refl])
      have adam: "scale_by_adam_update_fn b1 b2 eps eps_root debias power' updates state
          = bind_res (tree_map2 ?div (?hat mu1 b1) (?hat nu1 b2)) (\<lambda>updates.
              Inr (updates, \<lparr>ScaleByAdamState.count = ?c, mu = mu1, nu = nu1\<rparr>))"
        using mu nu by (simp add: scale_by_adam_update_fn_def Let_def)
      have nadam: "scale_by_nadam_update_fn b1 b2 eps eps_root debias power' updates state
          = bind_res (tree_map2 ?div (?hat mu2 b1) (?hat nu1 b2)) (\<lambda>updates.
              Inr (updates, \<lparr>ScaleByAdamState.count = ?c, mu = mu1, nu = nu1\<rparr>))"
        using mu nu mu2 by (simp add: scale_by_nadam_update_fn_def Let_def)
      show ?thesis
      proof (cases "tree_map2 ?div (?hat mu1 b1) (?hat nu1 b2)")
        case (Inl e)
        with same have "tree_map2 ?div (?hat mu2 b1) (?hat nu1 b2) = Inl e"
          by (cases "tree_map2 ?div (?hat mu2 b1) (?hat nu1 b2)") simp_all
        with Inl adam nadam show ?thesis by simp
      next
        case ua: (Inr ua)
        with same obtain un where un: "tree_map2 ?div (?hat mu2 b1) (?hat nu1 b2) = Inr un"
          by (cases "tree_map2 ?div (?hat mu2 b1) (?hat nu1 b2)") simp_all
        from ua un adam nadam mu mu2 show ?thesis by auto
      qed
    qed
  qed
qed

lemma example_adam_step:
  "scale_by_adam_update_fn (9 / 10) (999 / 1000) (1 / 10 ^ 8) 0 True (1 / 2)
     example_gradient (scale_by_adam_init_fn example_gradient)
   = Inr (Leaf (NDArray [1] [1 / (sqrt 1 + 1 / 10 ^ 8)]),
          \<lparr>ScaleByAdamState.count = 1, mu = Leaf (NDArray [1] [1 / 10]),
           nu = Leaf (NDArray [1] [1 / 1000])\<rparr>)"
  by (simp add: scale_by_adam_update_fn_def scale_by_adam_init_fn_def zeros_like_def
      example_gradient_def update_moment_def bias_correction_def elementwise1_def
      tree_map2_def elementwise2_def broadcast_to_def source_index_def
      broadcast_shapes_def raise_power_def)

lemma example_nadam_step:
  "scale_by_nadam_update_fn (9 / 10) (999 / 1000) (1 / 10 ^ 8) 0 True (1 / 2)
     example_gradient (scale_by_adam_init_fn example_gradient)
   = Inr (Leaf (NDArray [1] [(19 / 10) / (sqrt 1 + 1 / 10 ^ 8)]),
          \<lparr>ScaleByAdamState.count = 1, mu = Leaf (NDArray [1] [1 / 10]),
           nu = Leaf (NDArray [1] [1 / 1000])\<rparr>)"
  by (simp add: scale_by_nadam_update_fn_def scale_by_adam_init_fn_def zeros_like_def
      example_gradient_def update_moment_def bias_correction_def elementwise1_def
      tree_map2_def elementwise2_def broadcast_to_def source_index_def
      broadcast_shapes_def raise_power_def)

theorem scale_by_nadam_same_state_as_adam_witness:
  "scale_by_adam_update_fn (9 / 10) (999 / 1000) (1 / 10 ^ 8) 0 True (1 / 2)
     example_gradient (scale_by_adam_init_fn example_gradient)
   = Inr (Leaf (NDArray [1] [1 / (sqrt 1 + 1 / 10 ^ 8)]),
          \<lparr>ScaleByAdamState.count = 1, mu = Leaf (NDArray [1] [1 / 10]),
           nu = Leaf (NDArray [1] [1 / 1000])\<rparr>)
   \<and> (\<exists>updates_nadam.
        scale_by_nadam_update_fn (9 / 10) (999 / 1000) (1 / 10 ^ 8) 0 True (1 / 2)
          example_gradient (scale_by_adam_init_fn example_gradient)
        = Inr (updates_nadam,
            \<lparr>ScaleByAdamState.count = 1, mu = Leaf (NDArray [1] [1 / 10]),
             nu = Leaf (NDArray [1] [1 / 1000])\<rparr>)
        \<and> updates_nadam = Leaf (NDArray [1] [(19 / 10) / (sqrt 1 + 1 / 10 ^ 8)]))"
proof -
  let ?s = "\<lparr>ScaleByAdamState.count = 1, mu = Leaf (NDArray [1] [1 / 10]),
           nu = Leaf (NDArray [1] [1 / 1000])\<rparr>"
  from scale_by_nadam_same_state_as_adam
    [of "9 / 10" "999 / 1000" "1 / 10 ^ 8" 0 True "1 / 2" example_gradient
        "scale_by_adam_init_fn example_gradient"
        "Leaf (NDArray [1] [1 / (sqrt 1 + 1 / 10 ^ 8)])" ?s]
    example_adam_step
  obtain updates_nadam where
    n: "scale_by_nadam_update_fn (9 / 10) (999 / 1000) (1 / 10 ^ 8) 0 True (1 / 2)
          example_gradient (scale_by_adam_init_fn example_gradient) = Inr (updates_nadam, ?s)"
    by blast
  with example_nadam_step
  have "updates_nadam = Leaf (NDArray [1] [(19 / 10) / (sqrt 1 + 1 / 10 ^ 8)])"
    by simp
  with n example_adam_step show ?thesis by blast
qed

section \<open>transform.py: clipping\<close>

text \<open>
  \<^verbatim>\<open>_clip_update\<close> handles the values that are not numbers, so its arrays hold
  floating-point values: a finite number, an infinity or \<^verbatim>\<open>nan\<close>. The operations
  follow IEEE 754 on the special values. On finite values they are exact, except that a
  result beyond the largest finite number \<open>fmax\<close> of the array's dtype overflows to an
  infinity. The rounding of finite results, including the underflow of small ones to
  zero, and the sign of zero are not modelled.
\<close>

datatype float_value = Finite real | PosInf | NegInf | NaN

definition overflow :: "real \<Rightarrow> real \<Rightarrow> float_value" where
  "overflow fmax x = (if fmax < x then PosInf else if x < - fmax then NegInf else Finite x)"

text \<open>The largest finite float32, \<open>(2 - 2^-23) * 2^127\<close>.\<close>

definition float32_max :: real where
  "float32_max = 340282346638528859811704183484516925440"

text \<open>A value a float array of that dtype can hold.\<close>

fun representable :: "real \<Rightarrow> float_value \<Rightarrow> bool" where
  "representable fmax (Finite x) = (\<bar>x\<bar> \<le> fmax)"
| "representable fmax v = True"

fun float_add :: "real \<Rightarrow> float_value \<Rightarrow> float_value \<Rightarrow> float_value" where
  "float_add fmax (Finite a) (Finite b) = overflow fmax (a + b)"
| "float_add fmax NaN b = NaN"
| "float_add fmax a NaN = NaN"
| "float_add fmax PosInf NegInf = NaN"
| "float_add fmax NegInf PosInf = NaN"
| "float_add fmax PosInf b = PosInf"
| "float_add fmax a PosInf = PosInf"
| "float_add fmax NegInf b = NegInf"
| "float_add fmax a NegInf = NegInf"

fun float_square :: "real \<Rightarrow> float_value \<Rightarrow> float_value" where
  "float_square fmax (Finite a) = overflow fmax (a * a)"
| "float_square fmax PosInf = PosInf"
| "float_square fmax NegInf = PosInf"
| "float_square fmax NaN = NaN"

fun float_div :: "real \<Rightarrow> float_value \<Rightarrow> float_value \<Rightarrow> float_value" where
  "float_div fmax (Finite a) (Finite b) =
     (if b = 0 then (if a = 0 then NaN else if 0 < a then PosInf else NegInf)
      else overflow fmax (a / b))"
| "float_div fmax NaN b = NaN"
| "float_div fmax a NaN = NaN"
| "float_div fmax (Finite a) b = Finite 0"
| "float_div fmax PosInf (Finite b) = (if 0 \<le> b then PosInf else NegInf)"
| "float_div fmax NegInf (Finite b) = (if 0 \<le> b then NegInf else PosInf)"
| "float_div fmax a b = NaN"

fun float_sqrt :: "float_value \<Rightarrow> float_value" where
  "float_sqrt (Finite a) = (if a < 0 then NaN else Finite (sqrt a))"
| "float_sqrt PosInf = PosInf"
| "float_sqrt v = NaN"

fun float_le :: "float_value \<Rightarrow> float_value \<Rightarrow> bool" where
  "float_le NaN b = False"
| "float_le a NaN = False"
| "float_le NegInf b = True"
| "float_le a PosInf = True"
| "float_le (Finite a) (Finite b) = (a \<le> b)"
| "float_le a b = False"

fun jnp_maximum :: "float_value \<Rightarrow> float_value \<Rightarrow> float_value" where
  "jnp_maximum NaN b = NaN"
| "jnp_maximum a NaN = NaN"
| "jnp_maximum a b = (if float_le a b then b else a)"

text \<open>
  \<^verbatim>\<open>_sanitize_values(array, replacement)\<close> is
  \<^verbatim>\<open>jnp.nan_to_num(array, nan=replacement, posinf=replacement, neginf=replacement)\<close>;
  \<^verbatim>\<open>_clip_update\<close> applies it to the scalar that \<^verbatim>\<open>_reduce_rms\<close> returns.
\<close>

fun nan_to_num :: "float_value \<Rightarrow> float_value \<Rightarrow> float_value \<Rightarrow> float_value \<Rightarrow> float_value" where
  "nan_to_num (Finite a) nan posinf neginf = Finite a"
| "nan_to_num NaN nan posinf neginf = nan"
| "nan_to_num PosInf nan posinf neginf = posinf"
| "nan_to_num NegInf nan posinf neginf = neginf"

definition sanitize_values :: "float_value \<Rightarrow> float_value \<Rightarrow> float_value" where
  "sanitize_values array replacement = nan_to_num array replacement replacement replacement"

text \<open>
  \<^verbatim>\<open>jnp.sum\<close> over all elements, \<^verbatim>\<open>jnp.sum(array, axis=-1)\<close> over the rows of the
  last axis, and \<^verbatim>\<open>jnp.mean\<close>, the sum divided by the number of elements.
\<close>

definition float_sum :: "real \<Rightarrow> float_value list \<Rightarrow> float_value" where
  "float_sum fmax xs = foldl (float_add fmax) (Finite 0) xs"

definition sum_last_axis :: "real \<Rightarrow> float_value ndarray \<Rightarrow> float_value list" where
  "sum_last_axis fmax a =
     (let n = last (shape a)
      in map (\<lambda>i. float_sum fmax (take n (drop (i * n) (data a))))
           [0..<prod_list (butlast (shape a))])"

definition jnp_mean :: "real \<Rightarrow> float_value ndarray \<Rightarrow> float_value" where
  "jnp_mean fmax a =
     float_div fmax (float_sum fmax (data a)) (Finite (real (prod_list (shape a))))"

text \<open>
  \<^verbatim>\<open>_reduce_mean\<close>, with its branch for more than \<open>1e8\<close> elements (an array that
  large has a last axis, so \<open>sum_last_axis\<close> is only used on shapes that are not empty).
\<close>

definition reduce_mean :: "real \<Rightarrow> float_value ndarray \<Rightarrow> float_value" where
  "reduce_mean fmax array =
     (let num_elements = prod_list (shape array)
      in if 10 ^ 8 < real num_elements then
           let array_sum = sum_last_axis fmax array;
               array_sum = float_sum fmax array_sum
           in float_div fmax array_sum (Finite (real num_elements))
         else jnp_mean fmax array)"

definition reduce_rms :: "real \<Rightarrow> float_value ndarray \<Rightarrow> float_value" where
  "reduce_rms fmax array =
     (let sq = elementwise1 (float_square fmax) array;
          sq_mean = reduce_mean fmax sq
      in float_sqrt sq_mean)"

text \<open>
  \<^verbatim>\<open>_clip_update\<close>. \<open>clip_update_denom\<close> is its local \<^verbatim>\<open>denom\<close>. The argument
  \<open>clip_threshold\<close> is the threshold after
  \<^verbatim>\<open>jnp.array(clip_threshold, dtype=update.dtype)\<close>, a value of the update's dtype.
\<close>

definition clip_update_denom :: "real \<Rightarrow> float_value ndarray \<Rightarrow> float_value \<Rightarrow> float_value" where
  "clip_update_denom fmax update clip_threshold =
     (let mean_update = sanitize_values (reduce_rms fmax update) (Finite 1)
      in jnp_maximum (Finite 1) (float_div fmax mean_update clip_threshold))"

definition clip_update :: "real \<Rightarrow> float_value ndarray \<Rightarrow> float_value \<Rightarrow> float_value ndarray" where
  "clip_update fmax update clip_threshold =
     (let denom = clip_update_denom fmax update clip_threshold
      in elementwise1 (\<lambda>x. float_div fmax x denom) update)"

text \<open>
  An update whose root mean square is 2, and one whose root mean square \<open>1e19\<close> divided
  by the threshold \<open>1e-30\<close> is beyond float32.
\<close>

definition example_update :: "float_value ndarray" where
  "example_update = NDArray [2] [Finite 2, Finite 2]"

definition example_overflow_update :: "float_value ndarray" where
  "example_overflow_update = NDArray [1] [Finite (10 ^ 19)]"

subsection \<open>The divisor\<close>

lemma float_sqrt_not_NegInf: "float_sqrt v \<noteq> NegInf"
  by (cases v) auto

lemma sanitize_values_Finite:
  "\<exists>m. sanitize_values v (Finite 1) = Finite m \<and> (v = Finite m \<or> (m = 1 \<and> (\<forall>x. v \<noteq> Finite x)))"
  by (cases v) (auto simp: sanitize_values_def)

lemma float_div_one: "representable fmax v \<Longrightarrow> float_div fmax v (Finite 1) = v"
  by (cases v) (auto simp: overflow_def)

lemma clip_denom_value:
  assumes "0 < t" "sanitize_values (reduce_rms fmax update) (Finite 1) = Finite m"
  shows "clip_update_denom fmax update (Finite t)
       = (if fmax < m / t then PosInf else Finite (max 1 (m / t)))"
proof -
  define q where "q = m / t"
  have "jnp_maximum (Finite 1) (overflow fmax q)
      = (if fmax < q then PosInf else Finite (max 1 q))"
    by (auto simp: overflow_def)
  with assms show ?thesis
    by (simp add: clip_update_denom_def q_def)
qed

lemma clip_update_unchanged:
  assumes "1 \<le> fmax" "0 < t" "float_le (reduce_rms fmax update) (Finite t)"
    "list_all (representable fmax) (data update)"
  shows "clip_update fmax update (Finite t) = update"
proof -
  from assms(3) obtain r where r: "reduce_rms fmax update = Finite r" and rt: "r \<le> t"
    using float_sqrt_not_NegInf [of "reduce_mean fmax (elementwise1 (float_square fmax) update)"]
    by (cases "reduce_rms fmax update") (auto simp: reduce_rms_def Let_def)
  then have "sanitize_values (reduce_rms fmax update) (Finite 1) = Finite r"
    by (simp add: sanitize_values_def)
  note d = clip_denom_value [OF assms(2) this]
  from rt assms(2) have q: "r / t \<le> 1" by simp
  with assms(1) have "\<not> fmax < r / t" by simp
  with d q have "clip_update_denom fmax update (Finite t) = Finite 1"
    by (simp add: max_def)
  moreover from assms(4)
  have "map (\<lambda>x. float_div fmax x (Finite 1)) (data update) = data update"
    by (intro map_idI) (simp add: list_all_iff float_div_one)
  ultimately show ?thesis
    by (cases update) (simp add: clip_update_def elementwise1_def)
qed

lemma clip_update_denom_ge_1:
  assumes "0 < t"
  shows "float_le (Finite 1) (clip_update_denom fmax update (Finite t))"
proof -
  from sanitize_values_Finite [of "reduce_rms fmax update"] obtain m
    where "sanitize_values (reduce_rms fmax update) (Finite 1) = Finite m" by blast
  from clip_denom_value [OF assms this] show ?thesis by simp
qed


lemma example_update_rms: "reduce_rms float32_max example_update = Finite 2"
  by (simp add: reduce_rms_def reduce_mean_def jnp_mean_def float_sum_def
      elementwise1_def overflow_def float32_max_def example_update_def)


text \<open>
  C6 as stated says the divisor is always finite. In float32, the update \<^verbatim>\<open>[1e19]\<close>
  has the root mean square \<open>1e19\<close>; with the threshold \<open>1e-30\<close> the quotient \<open>1e49\<close>
  overflows, the divisor is \<open>+inf\<close> and the output is \<^verbatim>\<open>[0.0]\<close>.
\<close>

lemma sqrt_10_38: "sqrt (10 ^ 38) = 10 ^ 19"
  by (rule real_sqrt_unique) simp_all


end
